theory Spec2Isabelle
  imports Main
begin

text \<open>
  A model of the scaffolding generator \<open>scripts/generate_cli_script.py\<close>: the parameter
  grammar parser, the type coercion engine, the two surface renderers with their templates,
  the documentation generators, the file materializer and the entry point \<open>main\<close>, followed
  by the properties proved of them.
\<close>

section \<open>Strings as the generator uses them\<close>

text \<open>
  A Python \<open>str\<close> is modelled as a \<open>string\<close> (a list of 8-bit characters). The character
  classes below are those of the ASCII range; characters from \<open>0x80\<close> on are neither word
  characters nor white space here, and \<open>lower\<close> leaves them alone.
\<close>

definition nl :: char where
  "nl = CHR 0x0A"

text \<open>\<open>str.isspace\<close> and the regular expression class \<open>\s\<close> on ASCII.\<close>

definition is_space :: "char \<Rightarrow> bool" where
  "is_space c = (c \<in> set [CHR 0x09, CHR 0x0A, CHR 0x0B, CHR 0x0C, CHR 0x0D,
                            CHR 0x1C, CHR 0x1D, CHR 0x1E, CHR 0x1F, CHR 0x20])"

definition is_digit :: "char \<Rightarrow> bool" where
  "is_digit c = (c \<in> set ''0123456789'')"

definition is_upper :: "char \<Rightarrow> bool" where
  "is_upper c = (c \<in> set ''ABCDEFGHIJKLMNOPQRSTUVWXYZ'')"

definition is_lower :: "char \<Rightarrow> bool" where
  "is_lower c = (c \<in> set ''abcdefghijklmnopqrstuvwxyz'')"

text \<open>The regular expression class \<open>\w\<close> on ASCII: \<open>[A-Za-z0-9_]\<close>.\<close>

definition is_word :: "char \<Rightarrow> bool" where
  "is_word c = (is_upper c \<or> is_lower c \<or> is_digit c \<or> c = CHR ''_'')"

definition lower_char :: "char \<Rightarrow> char" where
  "lower_char c =
     (case map_of (zip ''ABCDEFGHIJKLMNOPQRSTUVWXYZ'' ''abcdefghijklmnopqrstuvwxyz'') c of
        Some l \<Rightarrow> l
      | None \<Rightarrow> c)"

definition lower :: "string \<Rightarrow> string" where
  "lower s = map lower_char s"

text \<open>\<open>str.strip()\<close>, \<open>str.rstrip()\<close> and \<open>str.strip(chars)\<close>.\<close>

fun rstrip :: "string \<Rightarrow> string" where
  "rstrip [] = []"
| "rstrip (c # cs) =
     (case rstrip cs of
        [] \<Rightarrow> if is_space c then [] else [c]
      | r # rs \<Rightarrow> c # r # rs)"

definition strip :: "string \<Rightarrow> string" where
  "strip s = rstrip (dropWhile is_space s)"

definition strip_chars :: "char \<Rightarrow> string \<Rightarrow> string" where
  "strip_chars d s = rev (dropWhile (\<lambda>c. c = d) (rev (dropWhile (\<lambda>c. c = d) s)))"

text \<open>
  \<open>str.split(sep)\<close> for a one-character separator, never the empty list: \<open>split_acc\<close>
  scans the text with the field read so far (reversed) in \<open>cur\<close>.
\<close>

fun split_acc :: "char \<Rightarrow> string \<Rightarrow> string \<Rightarrow> string list" where
  "split_acc d cur [] = [rev cur]"
| "split_acc d cur (c # cs) =
     (if c = d then rev cur # split_acc d [] cs else split_acc d (c # cur) cs)"

definition split_on :: "char \<Rightarrow> string \<Rightarrow> string list" where
  "split_on d s = split_acc d [] s"

text \<open>\<open>sep.join(xs)\<close>.\<close>

fun join :: "string \<Rightarrow> string list \<Rightarrow> string" where
  "join sep [] = []"
| "join sep [x] = x"
| "join sep (x # y # ys) = x @ sep @ join sep (y # ys)"

text \<open>\<open>str(n)\<close> for an integer.\<close>

fun show_nat :: "nat \<Rightarrow> string" where
  "show_nat n =
     (if n < 10 then [''0123456789'' ! n]
      else show_nat (n div 10) @ [''0123456789'' ! (n mod 10)])"

declare show_nat.simps [simp del]

definition show_int :: "int \<Rightarrow> string" where
  "show_int i = (if i < 0 then CHR ''-'' # show_nat (nat (- i)) else show_nat (nat i))"

text \<open>
  \<open>int(s)\<close> in base 10: surrounding white space is dropped, one sign is allowed, and the
  digits may be grouped by single underscores. \<open>None\<close> is the \<open>ValueError\<close>. (The limit of
  CPython 3.11 on the number of digits is not modelled.)
\<close>

fun digit_groups :: "bool \<Rightarrow> string \<Rightarrow> bool" where
  "digit_groups after_digit [] = after_digit"
| "digit_groups after_digit (c # cs) =
     (if is_digit c then digit_groups True cs
      else if c = CHR ''_'' \<and> after_digit then cs \<noteq> [] \<and> is_digit (hd cs) \<and> digit_groups False cs
      else False)"

definition digit_val :: "char \<Rightarrow> nat" where
  "digit_val c = (of_char c :: nat) - 48"

definition digits_value :: "string \<Rightarrow> nat" where
  "digits_value s = foldl (\<lambda>acc c. 10 * acc + digit_val c) 0 (filter is_digit s)"

definition py_int :: "string \<Rightarrow> int option" where
  "py_int s =
     (let t = strip s;
          neg = (t \<noteq> [] \<and> hd t = CHR ''-'');
          body = (if t \<noteq> [] \<and> (hd t = CHR ''-'' \<or> hd t = CHR ''+'') then tl t else t)
      in if digit_groups False body
         then Some (if neg then - int (digits_value body) else int (digits_value body))
         else None)"

text \<open>
  \<open>repr(s)\<close> of a string: single quotes, unless the string has a single quote and no double
  quote; backslash, the delimiter, tab, newline and carriage return are escaped with a
  backslash, other control characters as \<open>\xNN\<close>.
\<close>

definition hex2 :: "char \<Rightarrow> string" where
  "hex2 c = [''0123456789abcdef'' ! ((of_char c :: nat) div 16),
             ''0123456789abcdef'' ! ((of_char c :: nat) mod 16)]"

definition repr_char :: "char \<Rightarrow> char \<Rightarrow> string" where
  "repr_char q c =
     (if c = CHR 0x5C then [CHR 0x5C, CHR 0x5C]
      else if c = q then [CHR 0x5C, q]
      else if c = CHR 0x09 then [CHR 0x5C, CHR ''t'']
      else if c = CHR 0x0A then [CHR 0x5C, CHR ''n'']
      else if c = CHR 0x0D then [CHR 0x5C, CHR ''r'']
      else if (of_char c :: nat) < 32 \<or> c = CHR 0x7F then [CHR 0x5C, CHR ''x''] @ hex2 c
      else [c])"

definition repr :: "string \<Rightarrow> string" where
  "repr s =
     (let q = (if CHR 0x27 \<in> set s \<and> CHR 0x22 \<notin> set s then CHR 0x22 else CHR 0x27)
      in q # concat (map (repr_char q) s) @ [q])"

section \<open>Data model and utilities\<close>

record ParamSpec =
  name :: string
  type :: string
  required :: bool
  default_val :: "string option"

definition SUPPORTED_TYPES :: "string set" where
  "SUPPORTED_TYPES = {''str'', ''int'', ''float'', ''bool''}"

text \<open>The exceptions the generator raises or catches; each carries its message.\<close>

datatype error =
    ValueError string
  | FileExistsError string
  | NotADirectoryError string
  | IsADirectoryError string
  | FileNotFoundError string

text \<open>
  \<open>snake\<close>: characters outside \<open>[\w\s-]\<close> are removed, every run of hyphens and white space
  becomes one underscore, underscores are stripped from both ends, the result is lowered.
\<close>

fun sub_runs :: "bool \<Rightarrow> string \<Rightarrow> string" where
  "sub_runs in_run [] = []"
| "sub_runs in_run (c # cs) =
     (if c = CHR ''-'' \<or> is_space c
      then (if in_run then sub_runs True cs else CHR ''_'' # sub_runs True cs)
      else c # sub_runs False cs)"

definition snake :: "string \<Rightarrow> string" where
  "snake s =
     lower (strip_chars (CHR ''_'')
       (sub_runs False (filter (\<lambda>c. is_word c \<or> is_space c \<or> c = CHR ''-'') s)))"

text \<open>
  \<open>valid_identifier\<close>: \<open>re.match\<close> of \<open>^[A-Za-z_][A-Za-z0-9_]*$\<close>; the \<open>$\<close> of Python also
  matches before one final newline.
\<close>

definition ident_body :: "string \<Rightarrow> bool" where
  "ident_body s =
     (case s of [] \<Rightarrow> False
      | c # cs \<Rightarrow> (is_upper c \<or> is_lower c \<or> c = CHR ''_'') \<and> list_all is_word cs)"

definition valid_identifier :: "string \<Rightarrow> bool" where
  "valid_identifier s = (ident_body s \<or> (s \<noteq> [] \<and> last s = nl \<and> ident_body (butlast s)))"

section \<open>The parameter grammar parser\<close>

definition parse_param_token :: "string \<Rightarrow> error + ParamSpec" where
  "parse_param_token token =
     (let parts = split_on (CHR '':'') token in
      if length parts < 2 \<or> length parts > 3
      then Inl (ValueError (''Invalid --param format: '' @ [CHR 0x27] @ token @ [CHR 0x27]
                  @ ''. Expected '' @ [CHR 0x27] @ ''name:type[:default]'' @ [CHR 0x27]))
      else
        let nm = strip (parts ! 0);
            typ = strip (parts ! 1);
            dflt = (if length parts = 3 then Some (strip (parts ! 2)) else None)
        in if nm = [] \<or> \<not> valid_identifier (snake nm)
           then Inl (ValueError (''Invalid parameter name: '' @ [CHR 0x27] @ nm @ [CHR 0x27]))
           else if typ \<notin> SUPPORTED_TYPES
           then Inl (ValueError (''Unsupported type '' @ [CHR 0x27] @ typ @ [CHR 0x27] @ '' in ''
                       @ [CHR 0x27] @ token @ [CHR 0x27] @ ''. Supported: bool, float, int, str''))
           else Inr \<lparr>name = snake nm, type = typ, required = (dflt = None), default_val = dflt\<rparr>)"

text \<open>
  The name a token normalizes to, and the error of \<open>parse_params\<close> for a name seen before.
\<close>

definition token_name :: "string \<Rightarrow> string" where
  "token_name token = snake (strip (hd (split_on (CHR '':'') token)))"

definition duplicate_error :: "string \<Rightarrow> error" where
  "duplicate_error n = ValueError (''Duplicate parameter name: '' @ [CHR 0x27] @ n @ [CHR 0x27])"

text \<open>
  The loop of \<open>parse_params\<close>, with its two accumulators: the names seen and the
  descriptors so far (in input order).
\<close>

fun parse_params_loop :: "string set \<Rightarrow> ParamSpec list \<Rightarrow> string list \<Rightarrow> error + ParamSpec list" where
  "parse_params_loop seen specs [] = Inr specs"
| "parse_params_loop seen specs (t # ts) =
     (case parse_param_token t of
        Inl e \<Rightarrow> Inl e
      | Inr spec \<Rightarrow>
          if name spec \<in> seen
          then Inl (duplicate_error (name spec))
          else parse_params_loop (insert (name spec) seen) (specs @ [spec]) ts)"

definition parse_params :: "string list \<Rightarrow> error + ParamSpec list" where
  "parse_params tokens = parse_params_loop {} [] tokens"

section \<open>The type coercion engine\<close>

definition click_type :: "string \<Rightarrow> string" where
  "click_type typ =
     (if typ = ''str'' then ''str''
      else if typ = ''int'' then ''int''
      else if typ = ''float'' then ''float''
      else if typ = ''bool'' then ''bool''
      else ''str'')"

text \<open>
  \<open>python_cast_value\<close>. Floating point is not modelled: the parameter \<open>fl\<close> stands for
  \<open>str(float(val))\<close>, with \<open>None\<close> where \<open>float(val)\<close> raises \<open>ValueError\<close>.
\<close>

definition python_cast_value :: "(string \<Rightarrow> string option) \<Rightarrow> string \<Rightarrow> string \<Rightarrow> error + string" where
  "python_cast_value fl typ val =
     (if typ = ''str'' then Inr (repr val)
      else if typ = ''int'' then
        (case py_int val of
           Some i \<Rightarrow> Inr (show_int i)
         | None \<Rightarrow> Inl (ValueError (''invalid literal for int() with base 10: '' @ repr val)))
      else if typ = ''float'' then
        (case fl val of
           Some s \<Rightarrow> Inr s
         | None \<Rightarrow> Inl (ValueError (''could not convert string to float: '' @ repr val)))
      else if typ = ''bool'' then
        (if lower val \<in> {''1'', ''true'', ''yes'', ''y'', ''on''} then Inr ''True''
         else if lower val \<in> {''0'', ''false'', ''no'', ''n'', ''off''} then Inr ''False''
         else Inl (ValueError (''Invalid boolean default: '' @ val)))
      else Inr (repr val))"

section \<open>Text utilities of the renderers\<close>

abbreviation DQ :: string where
  "DQ \<equiv> [CHR 0x22]"

abbreviation SQ :: string where
  "SQ \<equiv> [CHR 0x27]"

text \<open>\<open>s.startswith(p)\<close>, \<open>p in s\<close> and \<open>s.replace(a, b)\<close> for single characters.\<close>

fun starts_with :: "string \<Rightarrow> string \<Rightarrow> bool" where
  "starts_with s [] = True"
| "starts_with [] (p # ps) = False"
| "starts_with (c # cs) (p # ps) = (c = p \<and> starts_with cs ps)"

fun contains_str :: "string \<Rightarrow> string \<Rightarrow> bool" where
  "contains_str [] p = (p = [])"
| "contains_str (c # cs) p = (starts_with (c # cs) p \<or> contains_str cs p)"

definition replace_char :: "char \<Rightarrow> char \<Rightarrow> string \<Rightarrow> string" where
  "replace_char a b s = map (\<lambda>c. if c = a then b else c) s"

text \<open>\<open>str.capitalize()\<close>: the first character upper-cased, the others lowered.\<close>

definition upper_char :: "char \<Rightarrow> char" where
  "upper_char c =
     (case map_of (zip ''abcdefghijklmnopqrstuvwxyz'' ''ABCDEFGHIJKLMNOPQRSTUVWXYZ'') c of
        Some u \<Rightarrow> u
      | None \<Rightarrow> c)"

definition capitalize :: "string \<Rightarrow> string" where
  "capitalize s = (case s of [] \<Rightarrow> [] | c # cs \<Rightarrow> upper_char c # lower cs)"

text \<open>
  \<open>textwrap.dedent\<close>: lines of blanks and tabs only are emptied, the margin is the longest
  common prefix of the leading blanks and tabs of the other non-empty lines, and it is
  removed from every line that starts with it.
\<close>

definition is_blank :: "char \<Rightarrow> bool" where
  "is_blank c = (c = CHR 0x20 \<or> c = CHR 0x09)"

fun common_prefix :: "string \<Rightarrow> string \<Rightarrow> string" where
  "common_prefix (x # xs) (y # ys) = (if x = y then x # common_prefix xs ys else [])"
| "common_prefix xs ys = []"

definition margin_of :: "string list \<Rightarrow> string" where
  "margin_of indents = (case indents of [] \<Rightarrow> [] | i # rest \<Rightarrow> foldl common_prefix i rest)"

definition blank_to_empty :: "string \<Rightarrow> string" where
  "blank_to_empty l = (if list_all is_blank l then [] else l)"

definition strip_margin :: "string \<Rightarrow> string list \<Rightarrow> string" where
  "strip_margin margin lines =
     join [nl] (map (\<lambda>l. if margin \<noteq> [] \<and> starts_with l margin
                            then drop (length margin) l else l) lines)"

definition dedent_lines :: "string list \<Rightarrow> string" where
  "dedent_lines lines =
     strip_margin (margin_of (map (takeWhile is_blank) (filter (\<lambda>l. l \<noteq> []) lines))) lines"

definition dedent :: "string \<Rightarrow> string" where
  "dedent text = dedent_lines (map blank_to_empty (split_on nl text))"

text \<open>
  \<open>str.splitlines(keepends=True)\<close> on ASCII, and \<open>textwrap.indent\<close>: the prefix goes in
  front of every line that is not white space only.
\<close>

definition is_linebreak :: "char \<Rightarrow> bool" where
  "is_linebreak c = (c \<in> set [CHR 0x0A, CHR 0x0B, CHR 0x0C, CHR 0x0D, CHR 0x1C, CHR 0x1D, CHR 0x1E])"

fun splitlines_keep :: "string \<Rightarrow> string list" where
  "splitlines_keep [] = []"
| "splitlines_keep [c] = [[c]]"
| "splitlines_keep (c # d # cs) =
     (if c = CHR 0x0D \<and> d = CHR 0x0A then [c, d] # splitlines_keep cs
      else if is_linebreak c then [c] # splitlines_keep (d # cs)
      else (case splitlines_keep (d # cs) of
              [] \<Rightarrow> [[c]]
            | l # ls \<Rightarrow> (c # l) # ls))"

definition indent :: "string \<Rightarrow> string \<Rightarrow> string" where
  "indent text prefix =
     concat (map (\<lambda>line. if strip line \<noteq> [] then prefix @ line else line) (splitlines_keep text))"

text \<open>A loop that appends one rendered item per element and stops at the first exception.\<close>

fun map_result :: "('a \<Rightarrow> error + 'b) \<Rightarrow> 'a list \<Rightarrow> error + 'b list" where
  "map_result f [] = Inr []"
| "map_result f (x # xs) =
     (case f x of
        Inl e \<Rightarrow> Inl e
      | Inr y \<Rightarrow> (case map_result f xs of Inl e \<Rightarrow> Inl e | Inr ys \<Rightarrow> Inr (y # ys)))"

text \<open>\<open>p.default or "false"\<close>.\<close>

definition default_or_false :: "ParamSpec \<Rightarrow> string" where
  "default_or_false p = (case default_val p of None \<Rightarrow> ''false'' | Some d \<Rightarrow> if d = [] then ''false'' else d)"

section \<open>Content generator: the subcommand surface\<close>

text \<open>
  The body of the loop over the parameters in \<open>generate_cli_content\<close>: the option
  decorator appended to \<open>option_lines\<close> for one parameter, or the exception of
  \<open>python_cast_value\<close>. The three f-strings of the loop come first.
\<close>

definition cli_bool_option_text :: "string \<Rightarrow> string \<Rightarrow> string" where
  "cli_bool_option_text nm default_expr =
       ''\<newline>'' @
       ''                    @click.option(\<newline>'' @
       ''                        '' @ DQ @ ''--'' @ nm @ DQ @ '',\<newline>'' @
       ''                        is_flag=True,\<newline>'' @
       ''                        default='' @ default_expr @ '',\<newline>'' @
       ''                        show_default=True,\<newline>'' @
       ''                        help='' @ DQ @ ''Boolean flag parameter: '' @ nm @ DQ @ '',\<newline>'' @
       ''                    )\<newline>'' @
       ''                    ''"

definition cli_required_option_text :: "string \<Rightarrow> string \<Rightarrow> string" where
  "cli_required_option_text nm click_typ =
       ''\<newline>'' @
       ''                        @click.option(\<newline>'' @
       ''                            '' @ DQ @ ''--'' @ nm @ DQ @ '',\<newline>'' @
       ''                            type='' @ click_typ @ '',\<newline>'' @
       ''                            required=True,\<newline>'' @
       ''                            help='' @ DQ @ ''Required parameter: '' @ nm @ DQ @ '',\<newline>'' @
       ''                        )\<newline>'' @
       ''                        ''"

definition cli_optional_option_text :: "string \<Rightarrow> string \<Rightarrow> string \<Rightarrow> string \<Rightarrow> string" where
  "cli_optional_option_text nm click_typ default_expr show_default =
       ''\<newline>'' @
       ''                        @click.option(\<newline>'' @
       ''                            '' @ DQ @ ''--'' @ nm @ DQ @ '',\<newline>'' @
       ''                            type='' @ click_typ @ '',\<newline>'' @
       ''                            default='' @ default_expr @ '',\<newline>'' @
       ''                            show_default='' @ show_default @ '',\<newline>'' @
       ''                            help='' @ DQ @ ''Optional parameter: '' @ nm @ DQ @ '',\<newline>'' @
       ''                        )\<newline>'' @
       ''                        ''"

definition cli_option :: "(string \<Rightarrow> string option) \<Rightarrow> ParamSpec \<Rightarrow> error + string" where
  "cli_option fl p =
     (if type p = ''bool'' then
        (case (if required p then Inr ''False'' else python_cast_value fl ''bool'' (default_or_false p)) of
           Inl e \<Rightarrow> Inl e
         | Inr default_expr \<Rightarrow> Inr (dedent (rstrip (cli_bool_option_text (name p) default_expr))))
      else
        let click_typ = click_type (type p) in
        if required p then Inr (dedent (rstrip (cli_required_option_text (name p) click_typ)))
        else
          (case (case default_val p of Some d \<Rightarrow> python_cast_value fl (type p) d | None \<Rightarrow> Inr ''None'') of
             Inl e \<Rightarrow> Inl e
           | Inr default_expr \<Rightarrow>
               let show_default = (if default_val p \<noteq> None then ''True'' else ''False'')
               in Inr (dedent (rstrip (cli_optional_option_text (name p) click_typ default_expr show_default)))))"

definition cli_signature_name :: "ParamSpec \<Rightarrow> string" where
  "cli_signature_name p =
     (if type p = ''bool'' then name p @ '': bool'' else name p @ '': '' @ click_type (type p))"

definition http_param :: "ParamSpec \<Rightarrow> string" where
  "http_param p = DQ @ name p @ DQ @ '': '' @ name p"

definition cli_json_option :: string where
  "cli_json_option = dedent (rstrip (
       ''\<newline>'' @
       ''            @click.option(\<newline>'' @
       ''                '' @ DQ @ ''--json'' @ DQ @ '',\<newline>'' @
       ''                '' @ DQ @ ''output_json'' @ DQ @ '',\<newline>'' @
       ''                is_flag=True,\<newline>'' @
       ''                help='' @ DQ @ ''Emit pure JSON on stdout (no logs). Human-readable output otherwise.'' @ DQ @ '',\<newline>'' @
       ''            )\<newline>'' @
       ''            ''))"

text \<open>
  The template of \<open>generate_cli_content\<close>, in three consecutive parts: the text up to the
  option decorators, the \<open>def\<close> line with the docstring of the command, and the body.
\<close>

definition cli_content_head :: "string \<Rightarrow> string \<Rightarrow> string \<Rightarrow> string \<Rightarrow> string \<Rightarrow> string" where
  "cli_content_head user_agent api_base_url binary subcommand options_blob =
       ''#!/usr/bin/env python3\<newline>'' @
       ''import json\<newline>'' @
       ''import sys\<newline>'' @
       ''import typing as t\<newline>'' @
       ''\<newline>'' @
       ''import click\<newline>'' @
       ''import httpx\<newline>'' @
       ''\<newline>'' @
       ''DEFAULT_TIMEOUT = 30.0\<newline>'' @
       ''DEFAULT_USER_AGENT = '' @ repr user_agent @ ''\<newline>'' @
       ''DEFAULT_API_BASE_URL = '' @ repr api_base_url @ ''\<newline>'' @
       ''\<newline>'' @
       ''@click.group()\<newline>'' @
       ''def cli():\<newline>'' @
       ''    '' @ [CHR 0x22, CHR 0x22, CHR 0x22] @ binary @ '' root CLI group.\<newline>'' @
       ''    Add or import additional commands into this group.\<newline>'' @
       ''    '' @ [CHR 0x22, CHR 0x22, CHR 0x22] @ ''\<newline>'' @
       ''\<newline>'' @
       ''\<newline>'' @
       ''@cli.command('' @ repr subcommand @ '')\<newline>'' @
       indent options_blob [] @ ''\<newline>''"

definition cli_content_docstring :: "string \<Rightarrow> string \<Rightarrow> string \<Rightarrow> string" where
  "cli_content_docstring func_name signature desc_line =
       ''def '' @ func_name @ ''('' @ signature @ '') -> None:\<newline>'' @
       ''    '' @ [CHR 0x22, CHR 0x22, CHR 0x22] @ desc_line @ ''.\<newline>'' @
       ''    Conventions:\<newline>'' @
       ''    - --json '' @ [CHR 0xE2, CHR 0x86, CHR 0x92] @ '' machine output (strict JSON on stdout)\<newline>'' @
       ''    - default '' @ [CHR 0xE2, CHR 0x86, CHR 0x92] @ '' concise human-readable output\<newline>'' @
       ''    - exit(0) on success; exit(1) on failure\<newline>'' @
       ''    - stderr for human diagnostics in JSON mode\<newline>'' @
       ''    '' @ [CHR 0x22, CHR 0x22, CHR 0x22] @ ''\<newline>''"

definition cli_content_tail :: "string \<Rightarrow> string \<Rightarrow> string \<Rightarrow> string" where
  "cli_content_tail endpoint http_params_blob human_blob =
       ''    try:\<newline>'' @
       ''        with httpx.Client(\<newline>'' @
       ''            base_url=DEFAULT_API_BASE_URL,\<newline>'' @
       ''            timeout=DEFAULT_TIMEOUT,\<newline>'' @
       ''            headers={'' @ DQ @ ''User-Agent'' @ DQ @ '': DEFAULT_USER_AGENT},\<newline>'' @
       ''        ) as client:\<newline>'' @
       ''            # Replace with your real HTTP logic and response shaping\<newline>'' @
       ''            resp = client.get(\<newline>'' @
       ''                '' @ repr endpoint @ '',\<newline>'' @
       ''                params={\<newline>'' @
       ''                '' @ indent http_params_blob ''                '' @ ''\<newline>'' @
       ''                },\<newline>'' @
       ''            )\<newline>'' @
       ''            resp.raise_for_status()\<newline>'' @
       ''            data: t.Dict[str, t.Any] = resp.json()\<newline>'' @
       ''\<newline>'' @
       ''        if output_json:\<newline>'' @
       ''            click.echo(json.dumps({\<newline>'' @
       ''                '' @ DQ @ ''endpoint'' @ DQ @ '': '' @ repr endpoint @ '',\<newline>'' @
       ''                '' @ DQ @ ''params'' @ DQ @ '': {\<newline>'' @
       indent http_params_blob ''                    '' @ ''\<newline>'' @
       ''                },\<newline>'' @
       ''                '' @ DQ @ ''data'' @ DQ @ '': data\<newline>'' @
       ''            }))\<newline>'' @
       ''        else:\<newline>'' @
       ''            '' @ human_blob @ ''\<newline>'' @
       ''            click.echo(f'' @ DQ @ ''Items: {len(data) if isinstance(data, list) else '' @ SQ @ ''N/A'' @ SQ @ ''}'' @ DQ @ '')\<newline>'' @
       ''\<newline>'' @
       ''        sys.exit(0)\<newline>'' @
       ''\<newline>'' @
       ''    except httpx.HTTPStatusError as e:\<newline>'' @
       ''        message = f'' @ DQ @ ''HTTP error: {e.response.status_code} - {e.response.text}'' @ DQ @ ''\<newline>'' @
       ''        if output_json:\<newline>'' @
       ''            click.echo(json.dumps({'' @ DQ @ ''error'' @ DQ @ '': message}))\<newline>'' @
       ''        else:\<newline>'' @
       ''            click.echo(f'' @ DQ @ ''Error: {message}'' @ DQ @ '', err=True)\<newline>'' @
       ''        sys.exit(1)\<newline>'' @
       ''\<newline>'' @
       ''    except httpx.RequestError as e:\<newline>'' @
       ''        message = f'' @ DQ @ ''Network error: {str(e)}'' @ DQ @ ''\<newline>'' @
       ''        if output_json:\<newline>'' @
       ''            click.echo(json.dumps({'' @ DQ @ ''error'' @ DQ @ '': message}))\<newline>'' @
       ''        else:\<newline>'' @
       ''            click.echo(f'' @ DQ @ ''Error: {message}'' @ DQ @ '', err=True)\<newline>'' @
       ''        sys.exit(1)\<newline>'' @
       ''\<newline>'' @
       ''    except Exception as e:\<newline>'' @
       ''        message = f'' @ DQ @ ''Unexpected error: {str(e)}'' @ DQ @ ''\<newline>'' @
       ''        if output_json:\<newline>'' @
       ''            click.echo(json.dumps({'' @ DQ @ ''error'' @ DQ @ '': message}))\<newline>'' @
       ''        else:\<newline>'' @
       ''            click.echo(f'' @ DQ @ ''Error: {message}'' @ DQ @ '', err=True)\<newline>'' @
       ''        sys.exit(1)\<newline>'' @
       ''\<newline>'' @
       ''\<newline>'' @
       ''if __name__ == '' @ DQ @ ''__main__'' @ DQ @ '':\<newline>'' @
       ''    cli()\<newline>''"

text \<open>\<open>desc_line = description.strip() if description else f"{name} subcommand"\<close>.\<close>

definition cli_desc_line :: "string \<Rightarrow> string option \<Rightarrow> string" where
  "cli_desc_line nm description =
     (case description of
        None \<Rightarrow> nm @ '' subcommand''
      | Some d \<Rightarrow> if d = [] then nm @ '' subcommand'' else strip d)"

definition generate_cli_content ::
  "(string \<Rightarrow> string option) \<Rightarrow> string \<Rightarrow> string \<Rightarrow> string \<Rightarrow> string \<Rightarrow> ParamSpec list \<Rightarrow> string option
     \<Rightarrow> error + string" where
  "generate_cli_content fl nm binary api_base_url endpoint params description =
     (let func_name = snake nm @ ''_cmd'';
          subcommand = replace_char (CHR ''_'') (CHR ''-'') nm;
          user_agent = binary @ ''/1.0''
      in case map_result (cli_option fl) params of
           Inl e \<Rightarrow> Inl e
         | Inr param_options \<Rightarrow>
             let option_lines = param_options @ [cli_json_option];
                 param_names_for_signature = map cli_signature_name params;
                 http_params = map http_param params;
                 options_blob = join [nl] option_lines;
                 signature = join '', '' (param_names_for_signature @ [''output_json: bool'']);
                 http_params_blob =
                   (if http_params \<noteq> [] then join ('','' @ [nl] @ ''                '') http_params else []);
                 human_lines =
                   [''f'' @ DQ @ ''Command: '' @ subcommand @ DQ,
                    ''f'' @ DQ @ ''Endpoint: '' @ endpoint @ DQ,
                    (if params \<noteq> []
                     then ''f'' @ DQ @ ''Params: '' @ ''{''
                          @ join '', '' (map (\<lambda>p. name p @ ''={{ '' @ name p @ '' }}'') params)
                          @ ''}'' @ DQ
                     else ''f'' @ DQ @ ''No parameters'' @ DQ)];
                 human_blob =
                   join ([nl] @ ''            '')
                     (map (\<lambda>line. ''click.echo('' @ line @ '')'') (filter (\<lambda>line. line \<noteq> []) human_lines));
                 desc_line = cli_desc_line nm description
             in Inr (cli_content_head user_agent api_base_url binary subcommand options_blob
                     @ cli_content_docstring func_name signature desc_line
                     @ cli_content_tail endpoint http_params_blob human_blob))"

section \<open>Content generator: the standalone script surface\<close>

definition script_bool_option_text :: "string \<Rightarrow> string \<Rightarrow> string" where
  "script_bool_option_text nm default_expr =
       ''\<newline>'' @
       ''                    @click.option(\<newline>'' @
       ''                        '' @ DQ @ ''--'' @ nm @ DQ @ '',\<newline>'' @
       ''                        is_flag=True,\<newline>'' @
       ''                        default='' @ default_expr @ '',\<newline>'' @
       ''                        show_default=True,\<newline>'' @
       ''                        help='' @ DQ @ ''Boolean flag parameter: '' @ nm @ DQ @ '',\<newline>'' @
       ''                    )\<newline>'' @
       ''                    ''"

definition script_required_option_text :: "string \<Rightarrow> string \<Rightarrow> string" where
  "script_required_option_text nm click_typ =
       ''\<newline>'' @
       ''                        @click.option(\<newline>'' @
       ''                            '' @ DQ @ ''--'' @ nm @ DQ @ '',\<newline>'' @
       ''                            type='' @ click_typ @ '',\<newline>'' @
       ''                            required=True,\<newline>'' @
       ''                            help='' @ DQ @ ''Required parameter: '' @ nm @ DQ @ '',\<newline>'' @
       ''                        )\<newline>'' @
       ''                        ''"

definition script_optional_option_text :: "string \<Rightarrow> string \<Rightarrow> string \<Rightarrow> string \<Rightarrow> string" where
  "script_optional_option_text nm click_typ default_expr show_default =
       ''\<newline>'' @
       ''                        @click.option(\<newline>'' @
       ''                            '' @ DQ @ ''--'' @ nm @ DQ @ '',\<newline>'' @
       ''                            type='' @ click_typ @ '',\<newline>'' @
       ''                            default='' @ default_expr @ '',\<newline>'' @
       ''                            show_default='' @ show_default @ '',\<newline>'' @
       ''                            help='' @ DQ @ ''Optional parameter: '' @ nm @ DQ @ '',\<newline>'' @
       ''                        )\<newline>'' @
       ''                        ''"

definition script_option :: "(string \<Rightarrow> string option) \<Rightarrow> ParamSpec \<Rightarrow> error + string" where
  "script_option fl p =
     (if type p = ''bool'' then
        (case (if required p then Inr ''False'' else python_cast_value fl ''bool'' (default_or_false p)) of
           Inl e \<Rightarrow> Inl e
         | Inr default_expr \<Rightarrow> Inr (dedent (rstrip (script_bool_option_text (name p) default_expr))))
      else
        let click_typ = (if type p \<in> {''int'', ''float''}
                         then ''click.'' @ capitalize (click_type (type p))
                         else click_type (type p)) in
        if required p then Inr (dedent (rstrip (script_required_option_text (name p) click_typ)))
        else
          (case (case default_val p of Some d \<Rightarrow> python_cast_value fl (type p) d | None \<Rightarrow> Inr ''None'') of
             Inl e \<Rightarrow> Inl e
           | Inr default_expr \<Rightarrow>
               let show_default = (if default_val p \<noteq> None then ''True'' else ''False'')
               in Inr (dedent (rstrip (script_optional_option_text (name p) click_typ default_expr show_default)))))"

definition script_signature_name :: "ParamSpec \<Rightarrow> string" where
  "script_signature_name p = (if type p = ''bool'' then name p @ '': bool'' else name p)"

definition script_json_option :: string where
  "script_json_option = dedent (rstrip (
       ''\<newline>'' @
       ''            @click.option(\<newline>'' @
       ''                '' @ DQ @ ''--json'' @ DQ @ '',\<newline>'' @
       ''                '' @ DQ @ ''output_json'' @ DQ @ '',\<newline>'' @
       ''                is_flag=True,\<newline>'' @
       ''                help='' @ DQ @ ''Emit strict JSON on stdout (no logs). Human-readable output otherwise.'' @ DQ @ '',\<newline>'' @
       ''            )\<newline>'' @
       ''            ''))"

definition script_simulate_option :: string where
  "script_simulate_option = dedent (rstrip (
       ''\<newline>'' @
       ''                @click.option(\<newline>'' @
       ''                    '' @ DQ @ ''--simulate'' @ DQ @ '',\<newline>'' @
       ''                    is_flag=True,\<newline>'' @
       ''                    help='' @ DQ @ ''Return stub data instead of making a network call.'' @ DQ @ '',\<newline>'' @
       ''                )\<newline>'' @
       ''                ''))"

definition simulate_stub_text :: "bool \<Rightarrow> string \<Rightarrow> string \<Rightarrow> string \<Rightarrow> ParamSpec list \<Rightarrow> string" where
  "simulate_stub_text include_simulate endpoint params_blob method_name params =
     (if include_simulate then strip (dedent (
       ''\<newline>'' @
       ''            if simulate:\<newline>'' @
       ''                data = {\<newline>'' @
       ''                    '' @ DQ @ ''endpoint'' @ DQ @ '': '' @ repr endpoint @ '',\<newline>'' @
       ''                    '' @ DQ @ ''params'' @ DQ @ '': {\<newline>'' @
       indent params_blob ''                        '' @ ''\<newline>'' @
       ''                    },\<newline>'' @
       ''                    '' @ DQ @ ''items'' @ DQ @ '': [{'' @ DQ @ ''id'' @ DQ @ '': '' @ DQ @ ''ex_1'' @ DQ @ ''}, {'' @ DQ @ ''id'' @ DQ @ '': '' @ DQ @ ''ex_2'' @ DQ @ ''}],\<newline>'' @
       ''                    '' @ DQ @ ''_note'' @ DQ @ '': '' @ DQ @ ''Simulated data. Wire up real HTTP logic and remove --simulate.'' @ DQ @ '',\<newline>'' @
       ''                }\<newline>'' @
       ''            else:\<newline>'' @
       ''                with Client() as client:\<newline>'' @
       ''                    data = client.'' @ method_name @ ''('' @ join '', '' (map name params) @ '')\<newline>'' @
       ''            ''))
      else
       ''with Client() as client:\<newline>'' @
       ''            data = client.'' @ method_name @ ''('' @ join '', '' (map name params) @ '')'')"

text \<open>
  The template of \<open>generate_script_content\<close>, in three consecutive parts: the shebang line
  with the dependency comment, the module docstring, and the rest.
\<close>

definition script_content_head :: string where
  "script_content_head =
       ''#!/usr/bin/env python3\<newline>'' @
       ''# /// script\<newline>'' @
       ''# dependencies = [\<newline>'' @
       ''#     '' @ DQ @ ''httpx'' @ DQ @ '',\<newline>'' @
       ''#     '' @ DQ @ ''click'' @ DQ @ '',\<newline>'' @
       ''# ]\<newline>'' @
       ''# ///\<newline>'' @
       ''\<newline>''"

definition script_content_docstring :: "string \<Rightarrow> string" where
  "script_content_docstring desc_line =
       [CHR 0x22, CHR 0x22, CHR 0x22] @ desc_line @ ''.\<newline>'' @
       ''Self-contained script with minimal HTTP client.\<newline>'' @
       ''\<newline>'' @
       ''Conventions:\<newline>'' @
       ''- '' @ [CHR 0x60] @ ''--help'' @ [CHR 0x60] @ '' shows options\<newline>'' @
       ''- '' @ [CHR 0x60] @ ''--json'' @ [CHR 0x60] @ '' prints strict JSON on stdout (no logs)\<newline>'' @
       ''- Exit 0 on success; exit 1 on failure\<newline>'' @
       ''- Keep code ~200'' @ [CHR 0xE2, CHR 0x80, CHR 0x93] @ ''300 lines when possible to reduce context\<newline>'' @
       [CHR 0x22, CHR 0x22, CHR 0x22] @ ''\<newline>''"

definition script_content_tail ::
  "string \<Rightarrow> string \<Rightarrow> string \<Rightarrow> ParamSpec list \<Rightarrow> string \<Rightarrow> string \<Rightarrow> string \<Rightarrow> string \<Rightarrow> string
     \<Rightarrow> string \<Rightarrow> string \<Rightarrow> string" where
  "script_content_tail api_base_url user_agent method_name params endpoint params_blob nm options_blob
       signature desc_line simulate_stub =
       ''\<newline>'' @
       ''import json\<newline>'' @
       ''import sys\<newline>'' @
       ''from typing import Any, Dict, Optional\<newline>'' @
       ''\<newline>'' @
       ''import click\<newline>'' @
       ''import httpx\<newline>'' @
       ''\<newline>'' @
       ''API_BASE_URL = '' @ repr api_base_url @ ''\<newline>'' @
       ''API_TIMEOUT = 30.0\<newline>'' @
       ''USER_AGENT = '' @ repr user_agent @ ''\<newline>'' @
       ''DEFAULT_HEADERS = {\<newline>'' @
       ''    '' @ DQ @ ''User-Agent'' @ DQ @ '': USER_AGENT,\<newline>'' @
       ''    # Add auth headers here if needed; prefer env vars/secure stores.\<newline>'' @
       ''}\<newline>'' @
       ''\<newline>'' @
       ''class Client:\<newline>'' @
       ''    def __init__(self):\<newline>'' @
       ''        self.client = httpx.Client(base_url=API_BASE_URL, timeout=API_TIMEOUT, headers=DEFAULT_HEADERS)\<newline>'' @
       ''\<newline>'' @
       ''    def __enter__(self) -> '' @ DQ @ ''Client'' @ DQ @ '':\<newline>'' @
       ''        return self\<newline>'' @
       ''\<newline>'' @
       ''    def __exit__(self, exc_type, exc, tb):\<newline>'' @
       ''        self.client.close()\<newline>'' @
       ''\<newline>'' @
       ''    def '' @ method_name @ ''(self, '' @ join '', '' (map name params) @ '') -> Dict[str, Any]:\<newline>'' @
       ''        '' @ [CHR 0x22, CHR 0x22, CHR 0x22] @ ''\<newline>'' @
       ''        Replace this implementation with your real logic.\<newline>'' @
       ''        Keep return shape consistent with your CLI and MCP surfaces.\<newline>'' @
       ''        '' @ [CHR 0x22, CHR 0x22, CHR 0x22] @ ''\<newline>'' @
       ''        resp = self.client.get(\<newline>'' @
       ''            '' @ repr endpoint @ '',\<newline>'' @
       ''            params={\<newline>'' @
       indent params_blob ''                '' @ ''\<newline>'' @
       ''            },\<newline>'' @
       ''        )\<newline>'' @
       ''        resp.raise_for_status()\<newline>'' @
       ''        return resp.json()\<newline>'' @
       ''\<newline>'' @
       ''\<newline>'' @
       ''def format_human(data: Dict[str, Any]) -> str:\<newline>'' @
       ''    lines = []\<newline>'' @
       ''    lines.append('' @ DQ @ nm @ '' Results'' @ DQ @ '')\<newline>'' @
       ''    lines.append('' @ DQ @ ''='' @ DQ @ '' * 40)\<newline>'' @
       ''    lines.append(f'' @ DQ @ ''endpoint: '' @ endpoint @ DQ @ '')\<newline>'' @
       ''    # For lists, show a count; adjust for your real schema\<newline>'' @
       ''    count = len(data) if isinstance(data, list) else (len(data.get('' @ DQ @ ''items'' @ DQ @ '', [])) if isinstance(data, dict) else '' @ DQ @ ''N/A'' @ DQ @ '')\<newline>'' @
       ''    lines.append(f'' @ DQ @ ''count:    {count}'' @ DQ @ '')\<newline>'' @
       ''    return '' @ [CHR 0x22, CHR 0x5C] @ ''n'' @ DQ @ ''.join(lines)\<newline>'' @
       ''\<newline>'' @
       ''\<newline>'' @
       ''@click.command()\<newline>'' @
       options_blob @ ''\<newline>'' @
       ''def main('' @ signature @ ''):\<newline>'' @
       ''    '' @ [CHR 0x22, CHR 0x22, CHR 0x22] @ desc_line @ ''.'' @ [CHR 0x22, CHR 0x22, CHR 0x22] @ ''\<newline>'' @
       ''    try:\<newline>'' @
       ''        '' @ simulate_stub @ ''\<newline>'' @
       ''\<newline>'' @
       ''        if output_json:\<newline>'' @
       ''            click.echo(json.dumps(data))\<newline>'' @
       ''        else:\<newline>'' @
       ''            click.echo(format_human(data))\<newline>'' @
       ''        sys.exit(0)\<newline>'' @
       ''\<newline>'' @
       ''    except httpx.HTTPStatusError as e:\<newline>'' @
       ''        msg = f'' @ DQ @ ''HTTP error: {e.response.status_code} - {e.response.text}'' @ DQ @ ''\<newline>'' @
       ''        if output_json:\<newline>'' @
       ''            click.echo(json.dumps({'' @ DQ @ ''error'' @ DQ @ '': msg}))\<newline>'' @
       ''        else:\<newline>'' @
       ''            click.echo(f'' @ [CHR 0x22, CHR 0xE2, CHR 0x9D, CHR 0x8C] @ '' Error: {msg}'' @ DQ @ '', err=True)\<newline>'' @
       ''        sys.exit(1)\<newline>'' @
       ''\<newline>'' @
       ''    except httpx.RequestError as e:\<newline>'' @
       ''        msg = f'' @ DQ @ ''Network error: {str(e)}'' @ DQ @ ''\<newline>'' @
       ''        if output_json:\<newline>'' @
       ''            click.echo(json.dumps({'' @ DQ @ ''error'' @ DQ @ '': msg}))\<newline>'' @
       ''        else:\<newline>'' @
       ''            click.echo(f'' @ [CHR 0x22, CHR 0xE2, CHR 0x9D, CHR 0x8C] @ '' Error: {msg}'' @ DQ @ '', err=True)\<newline>'' @
       ''        sys.exit(1)\<newline>'' @
       ''\<newline>'' @
       ''    except Exception as e:\<newline>'' @
       ''        msg = f'' @ DQ @ ''Unexpected error: {str(e)}'' @ DQ @ ''\<newline>'' @
       ''        if output_json:\<newline>'' @
       ''            click.echo(json.dumps({'' @ DQ @ ''error'' @ DQ @ '': msg}))\<newline>'' @
       ''        else:\<newline>'' @
       ''            click.echo(f'' @ [CHR 0x22, CHR 0xE2, CHR 0x9D, CHR 0x8C] @ '' Error: {msg}'' @ DQ @ '', err=True)\<newline>'' @
       ''        sys.exit(1)\<newline>'' @
       ''\<newline>'' @
       ''\<newline>'' @
       ''if __name__ == '' @ DQ @ ''__main__'' @ DQ @ '':\<newline>'' @
       ''    main()\<newline>''"

definition script_desc_line :: "string \<Rightarrow> string option \<Rightarrow> string" where
  "script_desc_line nm description =
     (case description of
        None \<Rightarrow> nm @ '' script''
      | Some d \<Rightarrow> if d = [] then nm @ '' script'' else strip d)"

definition generate_script_content ::
  "(string \<Rightarrow> string option) \<Rightarrow> string \<Rightarrow> string \<Rightarrow> string \<Rightarrow> string \<Rightarrow> ParamSpec list \<Rightarrow> string option
     \<Rightarrow> bool \<Rightarrow> error + string" where
  "generate_script_content fl nm binary api_base_url endpoint params description include_simulate =
     (let func_suffix = snake nm;
          method_name = ''fetch_'' @ func_suffix;
          user_agent = binary @ ''-script/1.0''
      in case map_result (script_option fl) params of
           Inl e \<Rightarrow> Inl e
         | Inr param_options \<Rightarrow>
             let option_lines = param_options @ [script_json_option]
                                @ (if include_simulate then [script_simulate_option] else []);
                 signature_names = map script_signature_name params;
                 param_for_query = map http_param params;
                 options_blob = join [nl] option_lines;
                 signature = join '', '' (signature_names @ [''output_json'']
                                          @ (if include_simulate then [''simulate''] else []));
                 params_blob =
                   (if param_for_query \<noteq> [] then join ('','' @ [nl] @ ''                    '') param_for_query
                    else []);
                 desc_line = script_desc_line nm description;
                 simulate_stub = simulate_stub_text include_simulate endpoint params_blob method_name params
             in Inr (script_content_head
                     @ script_content_docstring desc_line
                     @ script_content_tail api_base_url user_agent method_name params endpoint params_blob nm
                         options_blob signature desc_line simulate_stub))"

section \<open>Documentation generators\<close>

definition generate_test_plan_content :: "string \<Rightarrow> string" where
  "generate_test_plan_content binary = dedent (
       ''    # End-to-End Test and Validation Plan\<newline>'' @
       ''\<newline>'' @
       ''    Scope\<newline>'' @
       ''    - Validate parity, reliability, and ergonomics across four capability surfaces:\<newline>'' @
       ''      1) MCP Server (wrapping CLI via subprocess)\<newline>'' @
       ''      2) CLI (canonical API logic and JSON contracts)\<newline>'' @
       ''      3) File'' @ [CHR 0xE2, CHR 0x80, CHR 0x91] @ ''System Scripts (self'' @ [CHR 0xE2, CHR 0x80, CHR 0x91] @ ''contained, progressive disclosure)\<newline>'' @
       ''      4) Claude Skills (autonomous discovery; wraps scripts)\<newline>'' @
       ''    - Ensure behavior remains additive'' @ [CHR 0xE2, CHR 0x80, CHR 0x94] @ ''MCP remains available.\<newline>'' @
       ''\<newline>'' @
       ''    Guiding Principles\<newline>'' @
       ''    - CLI is the canonical source for remote I/O and JSON.\<newline>'' @
       ''    - MCP wraps CLI via subprocess (no duplicate HTTP logic).\<newline>'' @
       ''    - Scripts remain self-contained (no shared project imports).\<newline>'' @
       ''    - Skills document triggers and default to --json for processing.\<newline>'' @
       ''    - Strict JSON in machine mode; no stdout noise.\<newline>'' @
       ''\<newline>'' @
       ''    Test Categories\<newline>'' @
       ''    1) Parity Checks\<newline>'' @
       ''       - For each capability/tool:\<newline>'' @
       ''         - Execute CLI subcommand with representative params; capture JSON.\<newline>'' @
       ''         - Execute corresponding script with same params; capture JSON.\<newline>'' @
       ''         - Execute MCP tool (which calls CLI); capture JSON.\<newline>'' @
       ''         - Compare golden outputs for structural and key field equivalence.\<newline>'' @
       ''       - Verify parameter semantics: required vs optional, defaults, ranges.\<newline>'' @
       ''\<newline>'' @
       ''    2) Error and Exit Codes\<newline>'' @
       ''       - CLI: simulate validation errors (missing required, invalid enum/range).\<newline>'' @
       ''         - Expect exit 1, JSON error envelope under --json.\<newline>'' @
       ''       - Scripts: same as CLI.\<newline>'' @
       ''       - MCP: Ensure subprocess non-zero translates to structured error.\<newline>'' @
       ''       - Verify no stdout noise in --json mode across CLI/scripts.\<newline>'' @
       ''       - Confirm consistent error messages (stable shape).\<newline>'' @
       ''\<newline>'' @
       ''    3) Pagination and Cursors\<newline>'' @
       ''       - For list endpoints, verify:\<newline>'' @
       ''         - Default limit applied\<newline>'' @
       ''         - Cursor propagation (next/prev) where applicable\<newline>'' @
       ''         - CLI and scripts return identical pagination behavior\<newline>'' @
       ''         - MCP surfaces identical fields via CLI\<newline>'' @
       ''\<newline>'' @
       ''    4) Caching (if applicable)\<newline>'' @
       ''       - If CLI implements caching:\<newline>'' @
       ''         - First call latency vs subsequent calls\<newline>'' @
       ''         - TTL respected; refresh behavior with --refresh flag (if implemented)\<newline>'' @
       ''         - No stale data after TTL expiration\<newline>'' @
       ''         - Scripts may opt for lightweight cache; document paths and sizes\<newline>'' @
       ''\<newline>'' @
       ''    5) Performance and Token Hygiene\<newline>'' @
       ''       - Measure payload sizes (CLI and scripts) with default vs --full modes (if available)\<newline>'' @
       ''       - Ensure human-readable output remains concise\<newline>'' @
       ''       - Confirm that skills default to --json and avoid reading code unless necessary\<newline>'' @
       ''\<newline>'' @
       ''    6) Security and Configuration\<newline>'' @
       ''       - Ensure no secrets are logged or printed in --json mode\<newline>'' @
       ''       - For authenticated endpoints (if any):\<newline>'' @
       ''         - Validate env var-based configuration\<newline>'' @
       ''         - Confirm minimal scopes; verify failure behavior with missing/invalid creds\<newline>'' @
       ''\<newline>'' @
       ''    7) Claude Skills: Trigger and Behavior\<newline>'' @
       ''       - Confirm SKILL.md triggers align with user phrasing\<newline>'' @
       ''       - Prompt Claude Code with domain-relevant phrases to ensure autonomous invocation\<newline>'' @
       ''       - Ensure scripts are invoked with --json\<newline>'' @
       ''       - Validate that skills do not read code unless strictly needed (progressive disclosure)\<newline>'' @
       ''\<newline>'' @
       ''    8) Documentation Consistency\<newline>'' @
       ''       - Check that --help for CLI and scripts shows accurate flags, defaults, examples\<newline>'' @
       ''       - Verify mapping sheets are up-to-date per tool\<newline>'' @
       ''       - Confirm README '' @ [CHR 0xE2, CHR 0x80, CHR 0x9C] @ ''Pick your path'' @ [CHR 0xE2, CHR 0x80, CHR 0x9D] @ '' links are discoverable and correct\<newline>'' @
       ''\<newline>'' @
       ''    9) CI Integration\<newline>'' @
       ''       - Add a job to run unit/integration tests for CLI and scripts\<newline>'' @
       ''       - Optional: Golden output checks (snapshot testing) for a subset of commands\<newline>'' @
       ''       - Linting and basic static checks (flake8/ruff, mypy optional)\<newline>'' @
       ''       - Ensure test suite fails on non-zero exit or malformed JSON\<newline>'' @
       ''\<newline>'' @
       ''    Sample Test Commands\<newline>'' @
       ''    - CLI:\<newline>'' @
       ''      - uv run '' @ binary @ '' example --json\<newline>'' @
       ''      - uv run '' @ binary @ '' example --param1 foo --limit 5 --json\<newline>'' @
       ''    - Scripts:\<newline>'' @
       ''      - uv run scripts/example.py --param1 foo --limit 5 --json\<newline>'' @
       ''    - MCP:\<newline>'' @
       ''      - Use MCP inspector/dev tooling to call the corresponding tool and compare output to CLI JSON\<newline>'' @
       ''\<newline>'' @
       ''    Exit Criteria\<newline>'' @
       ''    - 100% parity for the chosen capability set across CLI/scripts/MCP\<newline>'' @
       ''    - Error and exit code behavior validated and consistent\<newline>'' @
       ''    - Skill triggers verified via manual prompts\<newline>'' @
       ''    - Docs updated; mapping sheets exist for each tool\<newline>'' @
       ''\<newline>'' @
       ''    Ownership and Change Management\<newline>'' @
       ''    - Treat CLI as the single source of truth for API logic and JSON contracts\<newline>'' @
       ''    - Pin MCP to a compatible CLI version (if versioning introduced)\<newline>'' @
       ''    - Scripts mirror CLI semantics; keep self-contained\<newline>'' @
       ''    - Update mapping sheets, changelog, and --help epilogues on changes\<newline>'' @
       ''\<newline>'' @
       ''    Attribution\<newline>'' @
       ''    - This plan builds on patterns inspired by the beyond-mcp repository by IndyDevDan (additive approach).\<newline>'' @
       ''    '')"

definition generate_generator_usage_content :: string where
  "generate_generator_usage_content = dedent (
       ''    # CLI/Script Generator Usage\<newline>'' @
       ''\<newline>'' @
       ''    This generator scaffolds:\<newline>'' @
       ''    - A CLI subcommand (Click + httpx)\<newline>'' @
       ''    - A self-contained file-system script (Click + httpx)\<newline>'' @
       ''    - Optional documentation (test/validation plan, usage snippet)\<newline>'' @
       ''\<newline>'' @
       ''    Basic Usage\<newline>'' @
       ''    '' @ [CHR 0x60, CHR 0x60, CHR 0x60] @ ''bash\<newline>'' @
       ''    python migration_guide/templates/generate_cli_script.py <name> '' @ [CHR 0x5C] @ ''\<newline>'' @
       ''      --target both '' @ [CHR 0x5C] @ ''\<newline>'' @
       ''      --binary yourcmd '' @ [CHR 0x5C] @ ''\<newline>'' @
       ''      --endpoint /v1/example '' @ [CHR 0x5C] @ ''\<newline>'' @
       ''      --api-base-url https://api.example.com '' @ [CHR 0x5C] @ ''\<newline>'' @
       ''      --param limit:int:10 '' @ [CHR 0x5C] @ ''\<newline>'' @
       ''      --param query:str '' @ [CHR 0x5C] @ ''\<newline>'' @
       ''      --out-cli ./apps/2_cli/<name>.py '' @ [CHR 0x5C] @ ''\<newline>'' @
       ''      --out-script ./apps/3_file_system_scripts/scripts/<name>.py '' @ [CHR 0x5C] @ ''\<newline>'' @
       ''      --emit-test-plan ./migration_guide/test_validation_plan.md     '' @ [CHR 0x60, CHR 0x60, CHR 0x60] @ ''\<newline>'' @
       ''\<newline>'' @
       ''    Param Spec\<newline>'' @
       ''    - Format: name:type[:default]\<newline>'' @
       ''      - If default omitted, parameter is required\<newline>'' @
       ''      - Supported types: str, int, float, bool\<newline>'' @
       ''    - Examples:\<newline>'' @
       ''      - --param limit:int:10\<newline>'' @
       ''      - --param query:str\<newline>'' @
       ''      - --param exact:bool:true\<newline>'' @
       ''\<newline>'' @
       ''    Tips\<newline>'' @
       ''    - Keep parameter names and defaults consistent with MCP and Skills.\<newline>'' @
       ''    - Prefer clean JSON outputs and minimal stdout noise for automation.\<newline>'' @
       ''    - For Skills, default to --json and add clear '' @ [CHR 0xE2, CHR 0x80, CHR 0x9C] @ ''When to use'' @ [CHR 0xE2, CHR 0x80, CHR 0x9D] @ '' bullets.\<newline>'' @
       ''    '')"

section \<open>The file materializer\<close>

text \<open>
  A path is the list of its components below a base directory (the working directory);
  \<open>[]\<close> is that directory itself, which always exists. Empty components and \<open>.\<close> are
  dropped as \<open>pathlib\<close> does; an absolute path is read from the same base. The file
  system is a map from the paths of regular files to their content and a set of
  directories; the two output streams are lists of lines. \<open>Path\<close> builds a path from a
  string, \<open>path_str\<close> is \<open>str(path)\<close>.
\<close>

type_synonym path = "string list"

record world =
  files :: "path \<rightharpoonup> string"
  dirs :: "path set"
  stdout :: "string list"
  stderr :: "string list"

definition Path :: "string \<Rightarrow> path" where
  "Path s = filter (\<lambda>c. c \<noteq> [] \<and> c \<noteq> ''.'') (split_on (CHR ''/'') s)"

definition path_str :: "path \<Rightarrow> string" where
  "path_str p = (if p = [] then ''.'' else join ''/'' p)"

definition parent :: "path \<Rightarrow> path" where
  "parent p = butlast p"

definition print_line :: "string \<Rightarrow> world \<Rightarrow> world" where
  "print_line s w = w\<lparr>stdout := stdout w @ [s]\<rparr>"

definition eprint :: "string \<Rightarrow> world \<Rightarrow> world" where
  "eprint s w = w\<lparr>stderr := stderr w @ [s]\<rparr>"

text \<open>\<open>Path.exists\<close>, \<open>Path.is_dir\<close>.\<close>

definition path_exists :: "world \<Rightarrow> path \<Rightarrow> bool" where
  "path_exists w p = (p = [] \<or> p \<in> dirs w \<or> p \<in> dom (files w))"

definition is_dir :: "world \<Rightarrow> path \<Rightarrow> bool" where
  "is_dir w p = (p = [] \<or> p \<in> dirs w)"

text \<open>
  \<open>Path.mkdir(parents=True, exist_ok=True)\<close>: nothing to do for a directory; a regular
  file at the path is a \<open>FileExistsError\<close>, one at an ancestor a \<open>NotADirectoryError\<close>;
  otherwise the path and every missing ancestor become directories.
\<close>

definition ancestors :: "path \<Rightarrow> path list" where
  "ancestors d = map (\<lambda>n. take n d) [1..<length d]"

definition mkdir_parents :: "path \<Rightarrow> world \<Rightarrow> error option \<times> world" where
  "mkdir_parents d w =
     (if is_dir w d then (None, w)
      else if d \<in> dom (files w)
      then (Some (FileExistsError (''[Errno 17] File exists: '' @ repr (path_str d))), w)
      else if list_ex (\<lambda>q. q \<in> dom (files w)) (ancestors d)
      then (Some (NotADirectoryError (''[Errno 20] Not a directory: '' @ repr (path_str d))), w)
      else (None, w\<lparr>dirs := dirs w \<union> set (ancestors d) \<union> {d}\<rparr>))"

definition ensure_parent :: "path \<Rightarrow> world \<Rightarrow> error option \<times> world" where
  "ensure_parent p w = mkdir_parents (parent p) w"

text \<open>\<open>Path.write_text\<close>: the file is created or its content replaced.\<close>

definition write_text :: "path \<Rightarrow> string \<Rightarrow> world \<Rightarrow> error option \<times> world" where
  "write_text p content w =
     (if is_dir w p
      then (Some (IsADirectoryError (''[Errno 21] Is a directory: '' @ repr (path_str p))), w)
      else if \<not> is_dir w (parent p)
      then (Some (FileNotFoundError (''[Errno 2] No such file or directory: '' @ repr (path_str p))), w)
      else (None, w\<lparr>files := (files w)(p \<mapsto> content)\<rparr>))"

definition write_file :: "path \<Rightarrow> string \<Rightarrow> bool \<Rightarrow> bool \<Rightarrow> world \<Rightarrow> error option \<times> world" where
  "write_file p content force dry_run w =
     (if path_exists w p \<and> \<not> force
      then (Some (FileExistsError (''File exists: '' @ path_str p @ '' (use --force to overwrite)'')), w)
      else
        case ensure_parent p w of
          (Some e, w1) \<Rightarrow> (Some e, w1)
        | (None, w1) \<Rightarrow>
            if dry_run then (None, print_line (''[DRY RUN] Would write: '' @ path_str p) w1)
            else
              (case write_text p content w1 of
                 (Some e, w2) \<Rightarrow> (Some e, w2)
               | (None, w2) \<Rightarrow> (None, print_line (''Wrote '' @ path_str p) w2)))"

section \<open>The entry point\<close>

text \<open>\<open>str(e)\<close> of an exception, and the truth value of an optional string argument.\<close>

fun error_str :: "error \<Rightarrow> string" where
  "error_str (ValueError m) = m"
| "error_str (FileExistsError m) = m"
| "error_str (NotADirectoryError m) = m"
| "error_str (IsADirectoryError m) = m"
| "error_str (FileNotFoundError m) = m"

definition given :: "string option \<Rightarrow> bool" where
  "given a = (case a of None \<Rightarrow> False | Some s \<Rightarrow> s \<noteq> [])"

text \<open>Sequencing of two steps inside the \<open>try\<close> block: an exception skips the rest.\<close>

definition and_then ::
  "(world \<Rightarrow> error option \<times> world) \<Rightarrow> (world \<Rightarrow> error option \<times> world) \<Rightarrow> world \<Rightarrow> error option \<times> world" where
  "and_then f g w = (case f w of (Some e, w1) \<Rightarrow> (Some e, w1) | (None, w1) \<Rightarrow> g w1)"

definition render_and_write ::
  "error + string \<Rightarrow> path \<Rightarrow> bool \<Rightarrow> bool \<Rightarrow> world \<Rightarrow> error option \<times> world" where
  "render_and_write rendered p force dry_run w =
     (case rendered of
        Inl e \<Rightarrow> (Some e, w)
      | Inr content \<Rightarrow> write_file p content force dry_run w)"

datatype target = Cli | Script | Both

record Args =
  name_arg :: string
  target :: target
  binary :: string
  endpoint :: string
  api_base_url :: string
  param :: "string list"
  description :: "string option"
  out_cli :: "string option"
  out_script :: "string option"
  no_simulate :: bool
  emit_test_plan :: "string option"
  emit_doc_snippets :: "string option"
  force :: bool
  dry_run :: bool

definition write_cli :: "(string \<Rightarrow> string option) \<Rightarrow> Args \<Rightarrow> string \<Rightarrow> ParamSpec list \<Rightarrow> path \<Rightarrow> world \<Rightarrow> error option \<times> world" where
  "write_cli fl args cap_name params cli_path w =
     (if target args \<in> {Cli, Both}
      then render_and_write
             (generate_cli_content fl cap_name (binary args) (api_base_url args) (endpoint args)
                params (description args))
             cli_path (force args) (dry_run args) w
      else (None, w))"

definition write_script :: "(string \<Rightarrow> string option) \<Rightarrow> Args \<Rightarrow> string \<Rightarrow> ParamSpec list \<Rightarrow> path \<Rightarrow> world \<Rightarrow> error option \<times> world" where
  "write_script fl args cap_name params script_path w =
     (if target args \<in> {Script, Both}
      then render_and_write
             (generate_script_content fl cap_name (binary args) (api_base_url args) (endpoint args)
                params (description args) (\<not> no_simulate args))
             script_path (force args) (dry_run args) w
      else (None, w))"

definition write_test_plan :: "Args \<Rightarrow> world \<Rightarrow> error option \<times> world" where
  "write_test_plan args w =
     (if given (emit_test_plan args)
      then write_file (Path (the (emit_test_plan args))) (generate_test_plan_content (binary args))
             (force args) (dry_run args) w
      else (None, w))"

definition write_doc_snippets :: "Args \<Rightarrow> world \<Rightarrow> error option \<times> world" where
  "write_doc_snippets args w =
     (if given (emit_doc_snippets args)
      then write_file (Path (the (emit_doc_snippets args))) generate_generator_usage_content
             (force args) (dry_run args) w
      else (None, w))"

text \<open>The output paths: the ones given, or the defaults built from the capability name.\<close>

definition out_cli_path :: "Args \<Rightarrow> string \<Rightarrow> path" where
  "out_cli_path args cap_name =
     (if given (out_cli args) then Path (the (out_cli args))
      else Path (''./cli_'' @ cap_name @ ''.py''))"

definition out_script_path :: "Args \<Rightarrow> string \<Rightarrow> path" where
  "out_script_path args cap_name =
     (if given (out_script args) then Path (the (out_script args))
      else Path (''./scripts/'' @ cap_name @ ''.py''))"

text \<open>The \<open>try\<close> block of \<open>main\<close>.\<close>

definition main_body ::
  "(string \<Rightarrow> string option) \<Rightarrow> Args \<Rightarrow> string \<Rightarrow> ParamSpec list \<Rightarrow> path \<Rightarrow> path \<Rightarrow> world \<Rightarrow> error option \<times> world" where
  "main_body fl args cap_name params cli_path script_path =
     and_then (write_cli fl args cap_name params cli_path)
    (and_then (write_script fl args cap_name params script_path)
    (and_then (write_test_plan args)
    (and_then (write_doc_snippets args)
              (\<lambda>w. (None, print_line ''Done.'' w)))))"

text \<open>\<open>main\<close>: the exit code and the world it leaves.\<close>

definition main :: "(string \<Rightarrow> string option) \<Rightarrow> Args \<Rightarrow> world \<Rightarrow> int \<times> world" where
  "main fl args w =
     (let cap_name = snake (name_arg args) in
      if \<not> valid_identifier cap_name
      then (2, eprint (''Invalid name after normalization: '' @ SQ @ cap_name @ SQ) w)
      else
        case parse_params (param args) of
          Inl e \<Rightarrow> (2, eprint (error_str e) w)
        | Inr params \<Rightarrow>
            case main_body fl args cap_name params (out_cli_path args cap_name)
                   (out_script_path args cap_name) w of
                 (None, w1) \<Rightarrow> (0, w1)
               | (Some (FileExistsError m), w1) \<Rightarrow> (3, eprint m w1)
               | (Some e, w1) \<Rightarrow> (1, eprint (''Failed: '' @ error_str e) w1))"

section \<open>Notions used in the statements\<close>

text \<open>
  A token that \<open>parse_param_token\<close> rejects: a wrong number of fields, a name that is empty
  or does not normalize to an identifier, or an unsupported type.
\<close>

definition token_error :: "string \<Rightarrow> bool" where
  "token_error t =
     (let parts = split_on (CHR '':'') t
      in length parts < 2 \<or> length parts > 3 \<or> strip (parts ! 0) = [] \<or>
         \<not> valid_identifier (snake (strip (parts ! 0))) \<or> strip (parts ! 1) \<notin> SUPPORTED_TYPES)"

text \<open>
  A descriptor whose default the coercion engine rejects when a surface is rendered: an
  optional parameter whose default is not a literal of its type.
\<close>

definition invalid_default :: "(string \<Rightarrow> string option) \<Rightarrow> ParamSpec \<Rightarrow> bool" where
  "invalid_default fl p =
     (\<not> required p \<and>
      (if type p = ''bool'' then isl (python_cast_value fl ''bool'' (default_or_false p))
       else (case default_val p of
               Some d \<Rightarrow> isl (python_cast_value fl (type p) d)
             | None \<Rightarrow> False)))"

text \<open>
  An artifact with a line that contains \<open>Usage:\<close>. The marker has no line break, so a
  line contains it exactly when the text does.
\<close>

definition has_usage_line :: "string \<Rightarrow> bool" where
  "has_usage_line content = contains_str content ''Usage:''"







section \<open>Properties of the parser\<close>

lemma parse_params_loop_Inr_iff:
  "parse_params_loop seen specs ts = Inr out \<longleftrightarrow>
     (\<exists>new. out = specs @ new \<and> map parse_param_token ts = map Inr new \<and>
            distinct (map name new) \<and> name ` set new \<inter> seen = {})"
proof (induction ts arbitrary: seen specs)
  case Nil
  then show ?case by auto
next
  case (Cons t ts)
  show ?case
  proof (cases "parse_param_token t")
    case (Inl e)
    then show ?thesis by auto
  next
    case (Inr spec)
    show ?thesis
    proof (cases "name spec \<in> seen")
      case True
      with Inr show ?thesis by auto
    next
      case False
      have "parse_params_loop seen specs (t # ts) = Inr out \<longleftrightarrow>
            parse_params_loop (insert (name spec) seen) (specs @ [spec]) ts = Inr out"
        using Inr False by simp
      also have "\<dots> \<longleftrightarrow> (\<exists>new. out = (specs @ [spec]) @ new \<and> map parse_param_token ts = map Inr new \<and>
            distinct (map name new) \<and> name ` set new \<inter> insert (name spec) seen = {})"
        by (rule Cons.IH)
      also have "\<dots> \<longleftrightarrow> (\<exists>new. out = specs @ new \<and> map parse_param_token (t # ts) = map Inr new \<and>
            distinct (map name new) \<and> name ` set new \<inter> seen = {})"
      proof
        assume "\<exists>new. out = (specs @ [spec]) @ new \<and> map parse_param_token ts = map Inr new \<and>
            distinct (map name new) \<and> name ` set new \<inter> insert (name spec) seen = {}"
        then obtain new where n: "out = (specs @ [spec]) @ new" "map parse_param_token ts = map Inr new"
            "distinct (map name new)" "name ` set new \<inter> insert (name spec) seen = {}" by blast
        show "\<exists>new. out = specs @ new \<and> map parse_param_token (t # ts) = map Inr new \<and>
            distinct (map name new) \<and> name ` set new \<inter> seen = {}"
          using n Inr False by (intro exI[of _ "spec # new"]) auto
      next
        assume "\<exists>new. out = specs @ new \<and> map parse_param_token (t # ts) = map Inr new \<and>
            distinct (map name new) \<and> name ` set new \<inter> seen = {}"
        then obtain new where n: "out = specs @ new" "map parse_param_token (t # ts) = map Inr new"
            "distinct (map name new)" "name ` set new \<inter> seen = {}" by blast
        from n(2) Inr obtain new' where new: "new = spec # new'" by (cases new) auto
        show "\<exists>new. out = (specs @ [spec]) @ new \<and> map parse_param_token ts = map Inr new \<and>
            distinct (map name new) \<and> name ` set new \<inter> insert (name spec) seen = {}"
          using n new by (intro exI[of _ new']) auto
      qed
      finally show ?thesis .
    qed
  qed
qed

lemma parse_params_Inr_iff:
  "parse_params ts = Inr specs \<longleftrightarrow>
     map parse_param_token ts = map Inr specs \<and> distinct (map name specs)"
  by (simp add: parse_params_def parse_params_loop_Inr_iff)

lemma split_acc_ne [simp]: "split_acc d cur r \<noteq> []"
  by (induction r arbitrary: cur) auto

lemma split_on_ne [simp]: "split_on d r \<noteq> []"
  by (simp add: split_on_def)

lemma split_on_Nil [simp]: "split_on d [] = [[]]"
  by (simp add: split_on_def)

lemma split_acc_append:
  "d \<notin> set s \<Longrightarrow> split_acc d cur (s @ r) = split_acc d (rev s @ cur) r"
  by (induction s arbitrary: cur) auto

lemma split_on_sep:
  "d \<notin> set s \<Longrightarrow> split_on d (s @ d # r) = s # split_on d r"
  by (simp add: split_on_def split_acc_append)

lemma split_on_nosep: "d \<notin> set s \<Longrightarrow> split_on d s = [s]"
  using split_acc_append [of d s "[]" "[]"] by (simp add: split_on_def)

lemma parse_param_token_required:
  "parse_param_token t = Inr s \<Longrightarrow>
     (required s \<longleftrightarrow> default_val s = None) \<and> (required s \<longleftrightarrow> length (split_on (CHR '':'') t) = 2)"
  by (auto simp: parse_param_token_def Let_def split: if_splits)


lemma parse_param_token_name:
  "parse_param_token t = Inr s \<Longrightarrow> name s = token_name t"
proof -
  have "split_on (CHR '':'') t ! 0 = hd (split_on (CHR '':'') t)"
    by (simp add: hd_conv_nth)
  then show "parse_param_token t = Inr s \<Longrightarrow> name s = token_name t"
    by (auto simp: parse_param_token_def token_name_def Let_def split: if_splits)
qed


lemma parse_all_tokens:
  "\<forall>t\<in>set ts. \<exists>s. parse_param_token t = Inr s \<Longrightarrow>
   \<exists>ss. map parse_param_token ts = map Inr ss \<and> map name ss = map token_name ts"
proof (induction ts)
  case Nil
  then show ?case by simp
next
  case (Cons t ts)
  then obtain ss where ss: "map parse_param_token ts = map Inr ss" "map name ss = map token_name ts"
    by auto
  from Cons.prems obtain s where s: "parse_param_token t = Inr s" by auto
  show ?case using ss s parse_param_token_name [OF s]
    by (intro exI [of _ "s # ss"]) simp
qed




text \<open>
  C5. Every list of valid tokens (each token parses, the names are pairwise distinct) is
  parsed into one descriptor per token, in input order, and these are the only lists the
  parser accepts.
\<close>

theorem parse_params_one_descriptor_per_token:
  "(parse_params tokens = Inr specs \<longleftrightarrow>
      map parse_param_token tokens = map Inr specs \<and> distinct (map name specs)) \<and>
   (parse_params tokens = Inr specs \<longrightarrow>
      length specs = length tokens \<and>
      (\<forall>i<length tokens. parse_param_token (tokens ! i) = Inr (specs ! i))) \<and>
   parse_params [''limit:int:10''] =
      Inr [\<lparr>name = ''limit'', type = ''int'', required = False, default_val = Some ''10''\<rparr>] \<and>
   parse_params [''query:str''] =
      Inr [\<lparr>name = ''query'', type = ''str'', required = True, default_val = None\<rparr>] \<and>
   (parse_param_token t = Inr s \<longrightarrow>
      (required s \<longleftrightarrow> default_val s = None) \<and>
      (required s \<longleftrightarrow> length (split_on (CHR '':'') t) = 2))"
proof (intro conjI impI)
  show "parse_params tokens = Inr specs \<longleftrightarrow>
      map parse_param_token tokens = map Inr specs \<and> distinct (map name specs)"
    by (rule parse_params_Inr_iff)
next
  assume "parse_params tokens = Inr specs"
  then have m: "map parse_param_token tokens = map Inr specs"
    by (simp add: parse_params_Inr_iff)
  show len: "length specs = length tokens"
    using length_map [of parse_param_token tokens] length_map [of Inr specs] m by simp
  show "\<forall>i<length tokens. parse_param_token (tokens ! i) = Inr (specs ! i)"
  proof (intro allI impI)
    fix i assume i: "i < length tokens"
    have "map parse_param_token tokens ! i = map Inr specs ! i" using m by simp
    then show "parse_param_token (tokens ! i) = Inr (specs ! i)" using i len by simp
  qed
next
  show "parse_params [''limit:int:10''] =
      Inr [\<lparr>name = ''limit'', type = ''int'', required = False, default_val = Some ''10''\<rparr>]"
    by code_simp
next
  show "parse_params [''query:str''] =
      Inr [\<lparr>name = ''query'', type = ''str'', required = True, default_val = None\<rparr>]"
    by code_simp
next
  assume "parse_param_token t = Inr s"
  then show "required s \<longleftrightarrow> default_val s = None" "required s \<longleftrightarrow> length (split_on (CHR '':'') t) = 2"
    using parse_param_token_required by blast+
qed

theorem parse_params_one_descriptor_per_token_witness:
  "parse_params [''limit:int:10'', ''query:str''] =
     Inr [\<lparr>name = ''limit'', type = ''int'', required = False, default_val = Some ''10''\<rparr>,
          \<lparr>name = ''query'', type = ''str'', required = True, default_val = None\<rparr>] \<and>
   parse_param_token ([''limit:int:10'', ''query:str''] ! 1) =
     Inr \<lparr>name = ''query'', type = ''str'', required = True, default_val = None\<rparr> \<and>
   length (split_on (CHR '':'') ''query:str'') = 2"
proof -
  let ?tokens = "[''limit:int:10'', ''query:str'']"
  let ?specs = "[\<lparr>name = ''limit'', type = ''int'', required = False, default_val = Some ''10''\<rparr>,
          \<lparr>name = ''query'', type = ''str'', required = True, default_val = None\<rparr>]"
  let ?s = "\<lparr>name = ''query'', type = ''str'', required = True, default_val = None\<rparr>"
  have h: "map parse_param_token ?tokens = map Inr ?specs \<and> distinct (map name ?specs)"
    by code_simp
  have t: "parse_param_token ''query:str'' = Inr ?s" by code_simp
  note inst = parse_params_one_descriptor_per_token [of ?tokens ?specs "''query:str''" ?s]
  from inst h have p: "parse_params ?tokens = Inr ?specs" by blast
  from inst p have "\<forall>i<length ?tokens. parse_param_token (?tokens ! i) = Inr (?specs ! i)" by blast
  then have "1 < length ?tokens \<longrightarrow> parse_param_token (?tokens ! 1) = Inr (?specs ! 1)" by (rule spec)
  then have "parse_param_token (?tokens ! 1) = Inr (?specs ! 1)" by simp
  moreover from inst t have "required ?s \<longleftrightarrow> length (split_on (CHR '':'') ''query:str'') = 2" by blast
  ultimately show ?thesis using p by simp
qed



text \<open>
  C10. A token that ends in a colon, so that its third field is empty, is accepted
  whatever the declared type: the descriptor is optional and its default is the empty
  string.
\<close>

theorem parse_param_token_empty_default:
  assumes "CHR '':'' \<notin> set n" and "CHR '':'' \<notin> set t"
    and "strip n \<noteq> []" and "valid_identifier (snake (strip n))"
    and "strip t \<in> SUPPORTED_TYPES"
  shows "parse_param_token (n @ '':'' @ t @ '':'') =
           Inr \<lparr>name = snake (strip n), type = strip t, required = False, default_val = Some []\<rparr>"
proof -
  have "split_on (CHR '':'') (n @ '':'' @ t @ '':'') = [n, t, []]"
    using assms(1,2) by (simp add: split_on_sep)
  then show ?thesis using assms(3-5)
    by (simp add: parse_param_token_def Let_def strip_def)
qed

theorem parse_param_token_empty_default_witness:
  "parse_param_token ''limit:int:'' =
     Inr \<lparr>name = ''limit'', type = ''int'', required = False, default_val = Some []\<rparr>"
proof -
  have "CHR '':'' \<notin> set ''limit''" "CHR '':'' \<notin> set ''int''" by simp_all
  moreover have "strip ''limit'' \<noteq> []" "valid_identifier (snake (strip ''limit''))"
    "strip ''int'' \<in> SUPPORTED_TYPES" "snake (strip ''limit'') = ''limit''" "strip ''int'' = ''int''"
    by code_simp+
  ultimately show ?thesis
    using parse_param_token_empty_default [of "''limit''" "''int''"] by simp
qed

section \<open>Properties of the coercion engine\<close>

text \<open>
  C7, as stated, fails: a token outside the vocabulary, such as \<open>TRUE\<close>, is not
  rejected, because the value is lowered before the lookup.
\<close>

theorem python_cast_value_bool_counterexample:
  "''TRUE'' \<notin> {''1'', ''true'', ''yes'', ''y'', ''on''} \<union> {''0'', ''false'', ''no'', ''n'', ''off''} \<and>
   python_cast_value (\<lambda>v. None) ''bool'' ''TRUE'' = Inr ''True''"
  by code_simp

text \<open>
  C7, amended. The vocabulary is matched on the lowered value: a boolean default whose
  lower-case form is one of \<open>1, true, yes, y, on\<close> becomes \<open>True\<close>, one whose lower-case form
  is one of \<open>0, false, no, n, off\<close> becomes \<open>False\<close>, and every other value fails with
  the error \<open>Invalid boolean default\<close> followed by the value as it was given.
\<close>

theorem python_cast_value_bool:
  "(lower val \<in> {''1'', ''true'', ''yes'', ''y'', ''on''} \<longrightarrow>
      python_cast_value fl ''bool'' val = Inr ''True'') \<and>
   (lower val \<in> {''0'', ''false'', ''no'', ''n'', ''off''} \<longrightarrow>
      python_cast_value fl ''bool'' val = Inr ''False'') \<and>
   (lower val \<notin> {''1'', ''true'', ''yes'', ''y'', ''on''} \<union> {''0'', ''false'', ''no'', ''n'', ''off''} \<longrightarrow>
      python_cast_value fl ''bool'' val = Inl (ValueError (''Invalid boolean default: '' @ val)))"
  by (simp add: python_cast_value_def)

theorem python_cast_value_bool_witness:
  "python_cast_value (\<lambda>v. None) ''bool'' ''Yes'' = Inr ''True'' \<and>
   python_cast_value (\<lambda>v. None) ''bool'' ''off'' = Inr ''False'' \<and>
   python_cast_value (\<lambda>v. None) ''bool'' ''maybe'' = Inl (ValueError ''Invalid boolean default: maybe'')"
proof -
  have "lower ''Yes'' \<in> {''1'', ''true'', ''yes'', ''y'', ''on''}"
    "lower ''off'' \<in> {''0'', ''false'', ''no'', ''n'', ''off''}"
    "lower ''maybe'' \<notin> {''1'', ''true'', ''yes'', ''y'', ''on''} \<union> {''0'', ''false'', ''no'', ''n'', ''off''}"
    by code_simp+
  then show ?thesis
    using python_cast_value_bool [of "''Yes''" "\<lambda>v. None"]
      python_cast_value_bool [of "''off''" "\<lambda>v. None"]
      python_cast_value_bool [of "''maybe''" "\<lambda>v. None"]
    by simp
qed

section \<open>Properties of the materializer and of the entry point\<close>

lemma write_file_conflict:
  "path_exists w p \<Longrightarrow>
   write_file p c False dry w =
     (Some (FileExistsError (''File exists: '' @ path_str p @ '' (use --force to overwrite)'')), w)"
  by (simp add: write_file_def)


lemma mkdir_parents_streams:
  "stdout (snd (mkdir_parents d w)) = stdout w" "stderr (snd (mkdir_parents d w)) = stderr w"
  by (simp_all add: mkdir_parents_def)








lemma main_body_first_raises:
  "write_cli fl args cap params cp w = (Some e, w1) \<Longrightarrow>
   main_body fl args cap params cp sp w = (Some e, w1)"
  by (simp add: main_body_def and_then_def)

lemma main_body_second_raises:
  "write_cli fl args cap params cp w = (None, w1) \<Longrightarrow>
   write_script fl args cap params sp w1 = (Some e, w2) \<Longrightarrow>
   main_body fl args cap params cp sp w = (Some e, w2)"
  by (simp add: main_body_def and_then_def)

lemma main_exit_conflict:
  "valid_identifier (snake (name_arg args)) \<Longrightarrow> parse_params (param args) = Inr params \<Longrightarrow>
   main_body fl args (snake (name_arg args)) params (out_cli_path args (snake (name_arg args)))
     (out_script_path args (snake (name_arg args))) w = (Some (FileExistsError m), w1) \<Longrightarrow>
   main fl args w = (3, eprint m w1)"
  by (simp add: main_def Let_def)

lemma main_conflict_first_surface:
  assumes v: "valid_identifier (snake (name_arg args))"
    and p: "parse_params (param args) = Inr params"
    and nf: "\<not> force args"
    and r: "map_result (cli_option fl) params = Inr co" "map_result (script_option fl) params = Inr so"
    and ex: "path_exists w (if target args = Script then out_script_path args (snake (name_arg args))
                            else out_cli_path args (snake (name_arg args)))"
  shows "main fl args w =
           (3, eprint (''File exists: ''
                 @ path_str (if target args = Script then out_script_path args (snake (name_arg args))
                             else out_cli_path args (snake (name_arg args)))
                 @ '' (use --force to overwrite)'') w)"
proof -
  let ?cap = "snake (name_arg args)"
  obtain cc where cc: "generate_cli_content fl ?cap (binary args) (api_base_url args) (endpoint args)
      params (description args) = Inr cc"
    using r(1) by (simp add: generate_cli_content_def Let_def)
  obtain sc where sc: "generate_script_content fl ?cap (binary args) (api_base_url args) (endpoint args)
      params (description args) (\<not> no_simulate args) = Inr sc"
    using r(2) by (simp add: generate_script_content_def Let_def)
  show ?thesis
  proof (cases "target args = Script")
    case True
    have 1: "write_cli fl args ?cap params (out_cli_path args ?cap) w = (None, w)"
      using True by (simp add: write_cli_def)
    have 2: "write_script fl args ?cap params (out_script_path args ?cap) w =
        (Some (FileExistsError (''File exists: '' @ path_str (out_script_path args ?cap)
           @ '' (use --force to overwrite)'')), w)"
      using True sc nf ex by (simp add: write_script_def render_and_write_def write_file_conflict)
    show ?thesis
      using main_exit_conflict [OF v p main_body_second_raises [OF 1 2]] True by simp
  next
    case False
    then have t: "target args \<in> {Cli, Both}" by (cases "target args") simp_all
    have 1: "write_cli fl args ?cap params (out_cli_path args ?cap) w =
        (Some (FileExistsError (''File exists: '' @ path_str (out_cli_path args ?cap)
           @ '' (use --force to overwrite)'')), w)"
      using t cc nf ex False by (simp add: write_cli_def render_and_write_def write_file_conflict)
    show ?thesis
      using main_exit_conflict [OF v p main_body_first_raises [OF 1]] False by simp
  qed
qed


lemma generate_cli_content_Inr:
  "map_result (cli_option fl) params = Inr co \<Longrightarrow>
   \<exists>c. generate_cli_content fl nm bin url ep params descr = Inr c"
  by (simp add: generate_cli_content_def Let_def)

lemma generate_script_content_Inr:
  "map_result (script_option fl) params = Inr so \<Longrightarrow>
   \<exists>c. generate_script_content fl nm bin url ep params descr sim = Inr c"
  by (simp add: generate_script_content_def Let_def)

lemma Path_default_cli: "Path ''./cli_orders.py'' = [''cli_orders.py'']"
  by (simp add: Path_def split_on_def)

lemma Path_default_script: "Path ''./scripts/orders.py'' = [''scripts'', ''orders.py'']"
  by (simp add: Path_def split_on_def)

lemma snake_orders: "snake ''orders'' = ''orders''"
  by code_simp

lemma valid_orders: "valid_identifier ''orders''"
  by code_simp

lemma token_error_iff: "token_error t \<longleftrightarrow> isl (parse_param_token t)"
  by (simp add: token_error_def parse_param_token_def Let_def)

lemma parse_params_Inl_iff:
  "(\<exists>e. parse_params ts = Inl e) \<longleftrightarrow> (\<exists>t\<in>set ts. token_error t) \<or> \<not> distinct (map token_name ts)"
proof
  assume "\<exists>e. parse_params ts = Inl e"
  then obtain e where e: "parse_params ts = Inl e" ..
  show "(\<exists>t\<in>set ts. token_error t) \<or> \<not> distinct (map token_name ts)"
  proof (rule ccontr)
    assume "\<not> ((\<exists>t\<in>set ts. token_error t) \<or> \<not> distinct (map token_name ts))"
    then have ok: "\<forall>t\<in>set ts. \<not> isl (parse_param_token t)" and d: "distinct (map token_name ts)"
      by (simp_all add: token_error_iff)
    have "\<forall>t\<in>set ts. \<exists>s. parse_param_token t = Inr s"
    proof
      fix t assume "t \<in> set ts"
      with ok have "\<not> isl (parse_param_token t)" by simp
      then show "\<exists>s. parse_param_token t = Inr s" by (cases "parse_param_token t") simp_all
    qed
    then obtain ss where ss: "map parse_param_token ts = map Inr ss" "map name ss = map token_name ts"
      using parse_all_tokens by blast
    then have "parse_params ts = Inr ss" using d by (simp add: parse_params_Inr_iff)
    with e show False by simp
  qed
next
  assume a: "(\<exists>t\<in>set ts. token_error t) \<or> \<not> distinct (map token_name ts)"
  show "\<exists>e. parse_params ts = Inl e"
  proof (cases "parse_params ts")
    case (Inl e)
    then show ?thesis by blast
  next
    case (Inr specs)
    then have m: "map parse_param_token ts = map Inr specs" and d: "distinct (map name specs)"
      by (simp_all add: parse_params_Inr_iff)
    have all: "\<forall>t\<in>set ts. \<exists>s. parse_param_token t = Inr s"
    proof
      fix t assume "t \<in> set ts"
      then have "parse_param_token t \<in> set (map parse_param_token ts)" by simp
      then have "parse_param_token t \<in> set (map Inr specs)" using m by simp
      then show "\<exists>s. parse_param_token t = Inr s" by auto
    qed
    then have ne: "\<not> (\<exists>t\<in>set ts. token_error t)" by (auto simp: token_error_iff)
    obtain ss where ss: "map parse_param_token ts = map Inr ss" "map name ss = map token_name ts"
      using parse_all_tokens [OF all] by blast
    have "map (Inr :: ParamSpec \<Rightarrow> error + ParamSpec) ss = map Inr specs" using ss(1) m by simp
    then have "ss = specs" by (simp add: inj_map_eq_map)
    then have "distinct (map token_name ts)" using d ss(2) by simp
    with a ne show ?thesis by simp
  qed
qed

lemma python_cast_value_error:
  "python_cast_value fl t v = Inl e \<Longrightarrow> \<exists>m. e = ValueError m"
  by (auto simp: python_cast_value_def split: if_splits option.splits)

lemma cli_option_isl: "isl (cli_option fl p) \<longleftrightarrow> invalid_default fl p"
  by (auto simp: cli_option_def invalid_default_def Let_def split: sum.splits option.splits)

lemma script_option_isl: "isl (script_option fl p) \<longleftrightarrow> invalid_default fl p"
  by (auto simp: script_option_def invalid_default_def Let_def split: sum.splits option.splits)

lemma cli_option_error: "cli_option fl p = Inl e \<Longrightarrow> \<exists>m. e = ValueError m"
  by (auto simp: cli_option_def Let_def split: sum.splits option.splits if_splits
      dest: python_cast_value_error)

lemma script_option_error: "script_option fl p = Inl e \<Longrightarrow> \<exists>m. e = ValueError m"
  by (auto simp: script_option_def Let_def split: sum.splits option.splits if_splits
      dest: python_cast_value_error)

lemma map_result_isl: "isl (map_result f xs) \<longleftrightarrow> (\<exists>x\<in>set xs. isl (f x))"
  by (induction xs) (auto split: sum.splits)

lemma map_result_error:
  "map_result f xs = Inl e \<Longrightarrow> \<exists>x\<in>set xs. f x = Inl e"
  by (induction xs arbitrary: e) (auto split: sum.splits)

lemma main_invalid_name:
  "\<not> valid_identifier (snake (name_arg args)) \<Longrightarrow>
   main fl args w = (2, eprint (''Invalid name after normalization: '' @ SQ @ snake (name_arg args) @ SQ) w)"
  by (simp add: main_def Let_def)

lemma main_parse_error:
  "valid_identifier (snake (name_arg args)) \<Longrightarrow> parse_params (param args) = Inl e \<Longrightarrow>
   main fl args w = (2, eprint (error_str e) w)"
  by (simp add: main_def Let_def)

lemma main_render_error:
  assumes v: "valid_identifier (snake (name_arg args))"
    and p: "parse_params (param args) = Inr params"
    and bad: "\<exists>p\<in>set params. invalid_default fl p"
  shows "\<exists>m. main fl args w = (1, eprint (''Failed: '' @ m) w)"
proof -
  let ?cap = "snake (name_arg args)"
  from bad have "isl (map_result (cli_option fl) params)"
    by (simp add: map_result_isl cli_option_isl)
  then obtain e1 where e1: "map_result (cli_option fl) params = Inl e1"
    by (cases "map_result (cli_option fl) params") simp_all
  from bad have "isl (map_result (script_option fl) params)"
    by (simp add: map_result_isl script_option_isl)
  then obtain e2 where e2: "map_result (script_option fl) params = Inl e2"
    by (cases "map_result (script_option fl) params") simp_all
  obtain m1 where m1: "e1 = ValueError m1"
    using map_result_error [OF e1] cli_option_error by blast
  obtain m2 where m2: "e2 = ValueError m2"
    using map_result_error [OF e2] script_option_error by blast
  have c: "generate_cli_content fl ?cap (binary args) (api_base_url args) (endpoint args) params
      (description args) = Inl (ValueError m1)"
    using e1 m1 by (simp add: generate_cli_content_def Let_def)
  have s: "generate_script_content fl ?cap (binary args) (api_base_url args) (endpoint args) params
      (description args) (\<not> no_simulate args) = Inl (ValueError m2)"
    using e2 m2 by (simp add: generate_script_content_def Let_def)
  show ?thesis
  proof (cases "target args = Script")
    case True
    have 1: "write_cli fl args ?cap params (out_cli_path args ?cap) w = (None, w)"
      using True by (simp add: write_cli_def)
    have 2: "write_script fl args ?cap params (out_script_path args ?cap) w = (Some (ValueError m2), w)"
      using True s by (simp add: write_script_def render_and_write_def)
    have "main fl args w = (1, eprint (''Failed: '' @ m2) w)"
      using v p main_body_second_raises [OF 1 2] by (simp add: main_def Let_def)
    then show ?thesis by blast
  next
    case False
    then have t: "target args \<in> {Cli, Both}" by (cases "target args") simp_all
    have 1: "write_cli fl args ?cap params (out_cli_path args ?cap) w = (Some (ValueError m1), w)"
      using t c by (simp add: write_cli_def render_and_write_def)
    have "main fl args w = (1, eprint (''Failed: '' @ m1) w)"
      using v p main_body_first_raises [OF 1] by (simp add: main_def Let_def)
    then show ?thesis by blast
  qed
qed

text \<open>
  C1 does not hold of the code: \<open>write_file\<close> calls \<open>ensure_parent\<close> before it looks at the
  dry-run flag. In an empty working directory a dry run of the materializer creates the
  parent directory of its target, and a dry run of the generator with the default output
  paths creates the directory \<open>scripts\<close>.
\<close>

theorem dry_run_creates_parent_directory:
  "write_file [''scripts'', ''orders.py''] ''text'' False True
     \<lparr>files = Map.empty, dirs = {}, stdout = [], stderr = []\<rparr> =
   (None, \<lparr>files = Map.empty, dirs = {[''scripts'']},
           stdout = [''[DRY RUN] Would write: scripts/orders.py''], stderr = []\<rparr>) \<and>
   main (\<lambda>v. None)
     \<lparr>name_arg = ''orders'', target = Both, binary = ''yourcmd'', endpoint = ''/example'',
      api_base_url = ''https://example.com/api'', param = [], description = None,
      out_cli = None, out_script = None, no_simulate = False, emit_test_plan = None,
      emit_doc_snippets = None, force = False, dry_run = True\<rparr>
     \<lparr>files = Map.empty, dirs = {}, stdout = [], stderr = []\<rparr> =
   (0, \<lparr>files = Map.empty, dirs = {[''scripts'']},
        stdout = [''[DRY RUN] Would write: cli_orders.py'',
                  ''[DRY RUN] Would write: scripts/orders.py'', ''Done.''],
        stderr = []\<rparr>)"
proof
  show "write_file [''scripts'', ''orders.py''] ''text'' False True
     \<lparr>files = Map.empty, dirs = {}, stdout = [], stderr = []\<rparr> =
   (None, \<lparr>files = Map.empty, dirs = {[''scripts'']},
           stdout = [''[DRY RUN] Would write: scripts/orders.py''], stderr = []\<rparr>)"
    by (simp add: write_file_def path_exists_def ensure_parent_def parent_def mkdir_parents_def
        is_dir_def ancestors_def print_line_def path_str_def)
next
  have "\<exists>c. generate_cli_content (\<lambda>v. None) ''orders'' ''yourcmd'' ''https://example.com/api''
      ''/example'' [] None = Inr c"
    by (rule generate_cli_content_Inr [of _ "[]" "[]"]) simp
  then obtain cc where cc: "generate_cli_content (\<lambda>v. None) ''orders'' ''yourcmd'' ''https://example.com/api''
      ''/example'' [] None = Inr cc"
    by (elim exE)
  have "\<exists>c. generate_script_content (\<lambda>v. None) ''orders'' ''yourcmd'' ''https://example.com/api''
      ''/example'' [] None True = Inr c"
    by (rule generate_script_content_Inr [of _ "[]" "[]"]) simp
  then obtain sc where sc: "generate_script_content (\<lambda>v. None) ''orders'' ''yourcmd'' ''https://example.com/api''
      ''/example'' [] None True = Inr sc"
    by (elim exE)
  show "main (\<lambda>v. None)
     \<lparr>name_arg = ''orders'', target = Both, binary = ''yourcmd'', endpoint = ''/example'',
      api_base_url = ''https://example.com/api'', param = [], description = None,
      out_cli = None, out_script = None, no_simulate = False, emit_test_plan = None,
      emit_doc_snippets = None, force = False, dry_run = True\<rparr>
     \<lparr>files = Map.empty, dirs = {}, stdout = [], stderr = []\<rparr> =
   (0, \<lparr>files = Map.empty, dirs = {[''scripts'']},
        stdout = [''[DRY RUN] Would write: cli_orders.py'',
                  ''[DRY RUN] Would write: scripts/orders.py'', ''Done.''],
        stderr = []\<rparr>)"
    using cc sc
    by (simp add: main_def snake_orders valid_orders parse_params_def main_body_def and_then_def
        write_cli_def write_script_def write_test_plan_def write_doc_snippets_def given_def
        render_and_write_def out_cli_path_def out_script_path_def Path_default_cli Path_default_script
        write_file_def path_exists_def ensure_parent_def parent_def mkdir_parents_def
        is_dir_def ancestors_def print_line_def path_str_def)
qed




text \<open>
  C9. The existence check comes before the dry-run branch: for a target that exists, a dry
  run without force raises \<open>File exists\<close> too, the generator exits with code 3, and the
  line reporting the would-be write is not printed.
\<close>

theorem dry_run_conflict_still_raises:
  "(path_exists w p \<longrightarrow>
      write_file p c False True w =
        (Some (FileExistsError (''File exists: '' @ path_str p @ '' (use --force to overwrite)'')), w)) \<and>
   (dry_run args \<and> \<not> force args \<and>
    valid_identifier (snake (name_arg args)) \<and> parse_params (param args) = Inr params \<and>
    map_result (cli_option fl) params = Inr co \<and> map_result (script_option fl) params = Inr so \<and>
    path_exists w (if target args = Script then out_script_path args (snake (name_arg args))
                   else out_cli_path args (snake (name_arg args))) \<longrightarrow>
      main fl args w =
        (3, w\<lparr>stderr := stderr w @
              [''File exists: ''
               @ path_str (if target args = Script then out_script_path args (snake (name_arg args))
                           else out_cli_path args (snake (name_arg args)))
               @ '' (use --force to overwrite)'']\<rparr>))"
proof (intro conjI impI)
  assume "path_exists w p"
  then show "write_file p c False True w =
        (Some (FileExistsError (''File exists: '' @ path_str p @ '' (use --force to overwrite)'')), w)"
    by (rule write_file_conflict)
next
  assume a: "dry_run args \<and> \<not> force args \<and>
    valid_identifier (snake (name_arg args)) \<and> parse_params (param args) = Inr params \<and>
    map_result (cli_option fl) params = Inr co \<and> map_result (script_option fl) params = Inr so \<and>
    path_exists w (if target args = Script then out_script_path args (snake (name_arg args))
                   else out_cli_path args (snake (name_arg args)))"
  have "main fl args w =
        (3, eprint (''File exists: ''
              @ path_str (if target args = Script then out_script_path args (snake (name_arg args))
                          else out_cli_path args (snake (name_arg args)))
              @ '' (use --force to overwrite)'') w)"
    by (rule main_conflict_first_surface [of args params fl co so w]) (use a in blast)+
  then show "main fl args w =
        (3, w\<lparr>stderr := stderr w @
              [''File exists: ''
               @ path_str (if target args = Script then out_script_path args (snake (name_arg args))
                           else out_cli_path args (snake (name_arg args)))
               @ '' (use --force to overwrite)'']\<rparr>)"
    by (simp add: eprint_def)
qed

theorem dry_run_conflict_still_raises_witness:
  "write_file [''cli_orders.py''] ''new'' False True
     \<lparr>files = [[''cli_orders.py''] \<mapsto> ''old''], dirs = {}, stdout = [], stderr = []\<rparr> =
     (Some (FileExistsError ''File exists: cli_orders.py (use --force to overwrite)''),
      \<lparr>files = [[''cli_orders.py''] \<mapsto> ''old''], dirs = {}, stdout = [], stderr = []\<rparr>) \<and>
   main (\<lambda>v. None)
     \<lparr>name_arg = ''orders'', target = Both, binary = ''yourcmd'', endpoint = ''/example'',
      api_base_url = ''https://example.com/api'', param = [], description = None,
      out_cli = None, out_script = None, no_simulate = False, emit_test_plan = None,
      emit_doc_snippets = None, force = False, dry_run = True\<rparr>
     \<lparr>files = [[''cli_orders.py''] \<mapsto> ''old''], dirs = {}, stdout = [], stderr = []\<rparr> =
     (3, \<lparr>files = [[''cli_orders.py''] \<mapsto> ''old''], dirs = {}, stdout = [],
          stderr = [''File exists: cli_orders.py (use --force to overwrite)'']\<rparr>)"
proof -
  let ?w = "\<lparr>files = [[''cli_orders.py''] \<mapsto> ''old''], dirs = {}, stdout = [], stderr = []\<rparr>"
  let ?args = "\<lparr>name_arg = ''orders'', target = Both, binary = ''yourcmd'', endpoint = ''/example'',
      api_base_url = ''https://example.com/api'', param = [], description = None,
      out_cli = None, out_script = None, no_simulate = False, emit_test_plan = None,
      emit_doc_snippets = None, force = False, dry_run = True\<rparr>"
  let ?p = "[''cli_orders.py'']"
  note inst = dry_run_conflict_still_raises [where w = ?w and p = ?p and c = "''new''"
      and args = ?args and fl = "\<lambda>v. None" and params = "[]" and co = "[]" and so = "[]"]
  have ocp: "out_cli_path ?args ''orders'' = ?p"
    by (simp add: out_cli_path_def given_def Path_default_cli)
  have h1: "path_exists ?w ?p" by (simp add: path_exists_def)
  have h2: "dry_run ?args \<and> \<not> force ?args \<and>
    valid_identifier (snake (name_arg ?args)) \<and> parse_params (param ?args) = Inr [] \<and>
    map_result (cli_option (\<lambda>v. None)) [] = Inr [] \<and> map_result (script_option (\<lambda>v. None)) [] = Inr [] \<and>
    path_exists ?w (if target ?args = Script then out_script_path ?args (snake (name_arg ?args))
                   else out_cli_path ?args (snake (name_arg ?args)))"
    using h1 by (simp add: snake_orders valid_orders parse_params_def ocp)
  have r1: "write_file ?p ''new'' False True ?w =
      (Some (FileExistsError ''File exists: cli_orders.py (use --force to overwrite)''), ?w)"
    using inst h1 by (simp add: path_str_def)
  have r2: "main (\<lambda>v. None) ?args ?w =
     (3, \<lparr>files = [[''cli_orders.py''] \<mapsto> ''old''], dirs = {}, stdout = [],
          stderr = [''File exists: cli_orders.py (use --force to overwrite)'']\<rparr>)"
    using inst h2 by (simp add: snake_orders ocp path_str_def)
  show ?thesis using r1 r2 by simp
qed

text \<open>
  C2, as stated, fails: an invalid boolean default passes the parser, is detected only
  when the first surface is rendered, and the generator exits with code 1.
\<close>

theorem invalid_default_exit_code_counterexample:
  "parse_params [''flag:bool:maybe''] =
     Inr [\<lparr>name = ''flag'', type = ''bool'', required = False, default_val = Some ''maybe''\<rparr>] \<and>
   main (\<lambda>v. None)
     \<lparr>name_arg = ''orders'', target = Both, binary = ''yourcmd'', endpoint = ''/example'',
      api_base_url = ''https://example.com/api'', param = [''flag:bool:maybe''], description = None,
      out_cli = None, out_script = None, no_simulate = False, emit_test_plan = None,
      emit_doc_snippets = None, force = False, dry_run = False\<rparr>
     \<lparr>files = Map.empty, dirs = {}, stdout = [], stderr = []\<rparr> =
   (1, \<lparr>files = Map.empty, dirs = {}, stdout = [],
        stderr = [''Failed: Invalid boolean default: maybe'']\<rparr>)"
proof -
  have p: "parse_params [''flag:bool:maybe''] =
     Inr [\<lparr>name = ''flag'', type = ''bool'', required = False, default_val = Some ''maybe''\<rparr>]"
    by code_simp
  have o: "cli_option (\<lambda>v. None)
      \<lparr>name = ''flag'', type = ''bool'', required = False, default_val = Some ''maybe''\<rparr> =
      Inl (ValueError ''Invalid boolean default: maybe'')"
    by (simp add: cli_option_def default_or_false_def python_cast_value_def lower_def lower_char_def)
  show ?thesis
    using p o
    by (simp add: main_def snake_orders valid_orders main_body_def and_then_def write_cli_def
        render_and_write_def generate_cli_content_def eprint_def)
qed

text \<open>
  C2, amended. The parser rejects exactly the token lists with a malformed token (wrong
  number of fields, invalid identifier, unsupported type) or a duplicate name; for such a
  request, and for an invalid capability name, the generator exits with code 2 and only
  writes the message to the error stream. An invalid boolean or numeric default is not a
  parser error: it is raised by the first renderer, before anything is written or created,
  and the generator exits with code 1.
\<close>

theorem validation_errors_before_writing:
  "((\<exists>e. parse_params (param args) = Inl e) \<longleftrightarrow>
      (\<exists>t\<in>set (param args). token_error t) \<or> \<not> distinct (map token_name (param args))) \<and>
   (\<not> valid_identifier (snake (name_arg args)) \<or> (\<exists>e. parse_params (param args) = Inl e) \<longrightarrow>
      (\<exists>m. main fl args w = (2, eprint m w))) \<and>
   (valid_identifier (snake (name_arg args)) \<and> parse_params (param args) = Inr params \<and>
    (\<exists>p\<in>set params. invalid_default fl p) \<longrightarrow>
      (\<exists>m. main fl args w = (1, eprint (''Failed: '' @ m) w)))"
proof (intro conjI impI)
  show "(\<exists>e. parse_params (param args) = Inl e) \<longleftrightarrow>
      (\<exists>t\<in>set (param args). token_error t) \<or> \<not> distinct (map token_name (param args))"
    by (rule parse_params_Inl_iff)
next
  assume a: "\<not> valid_identifier (snake (name_arg args)) \<or> (\<exists>e. parse_params (param args) = Inl e)"
  show "\<exists>m. main fl args w = (2, eprint m w)"
  proof (cases "valid_identifier (snake (name_arg args))")
    case False
    then show ?thesis using main_invalid_name by blast
  next
    case True
    with a obtain e where "parse_params (param args) = Inl e" by blast
    with True show ?thesis using main_parse_error by blast
  qed
next
  assume "valid_identifier (snake (name_arg args)) \<and> parse_params (param args) = Inr params \<and>
    (\<exists>p\<in>set params. invalid_default fl p)"
  then show "\<exists>m. main fl args w = (1, eprint (''Failed: '' @ m) w)"
    using main_render_error by blast
qed


theorem validation_errors_before_writing_witness:
  "fst (main (\<lambda>v. None)
     \<lparr>name_arg = ''orders'', target = Both, binary = ''yourcmd'', endpoint = ''/example'',
      api_base_url = ''https://example.com/api'', param = [''x:date''], description = None,
      out_cli = None, out_script = None, no_simulate = False, emit_test_plan = None,
      emit_doc_snippets = None, force = False, dry_run = False\<rparr>
     \<lparr>files = Map.empty, dirs = {}, stdout = [], stderr = []\<rparr>) = 2 \<and>
   fst (main (\<lambda>v. None)
     \<lparr>name_arg = ''orders'', target = Both, binary = ''yourcmd'', endpoint = ''/example'',
      api_base_url = ''https://example.com/api'', param = [''limit:int:abc''], description = None,
      out_cli = None, out_script = None, no_simulate = False, emit_test_plan = None,
      emit_doc_snippets = None, force = False, dry_run = False\<rparr>
     \<lparr>files = Map.empty, dirs = {}, stdout = [], stderr = []\<rparr>) = 1 \<and>
   dirs (snd (main (\<lambda>v. None)
     \<lparr>name_arg = ''orders'', target = Both, binary = ''yourcmd'', endpoint = ''/example'',
      api_base_url = ''https://example.com/api'', param = [''limit:int:abc''], description = None,
      out_cli = None, out_script = None, no_simulate = False, emit_test_plan = None,
      emit_doc_snippets = None, force = False, dry_run = False\<rparr>
     \<lparr>files = Map.empty, dirs = {}, stdout = [], stderr = []\<rparr>)) = {}"
proof -
  let ?w = "\<lparr>files = Map.empty, dirs = {}, stdout = [], stderr = []\<rparr>"
  let ?a1 = "\<lparr>name_arg = ''orders'', target = Both, binary = ''yourcmd'', endpoint = ''/example'',
      api_base_url = ''https://example.com/api'', param = [''x:date''], description = None,
      out_cli = None, out_script = None, no_simulate = False, emit_test_plan = None,
      emit_doc_snippets = None, force = False, dry_run = False\<rparr>"
  let ?a2 = "\<lparr>name_arg = ''orders'', target = Both, binary = ''yourcmd'', endpoint = ''/example'',
      api_base_url = ''https://example.com/api'', param = [''limit:int:abc''], description = None,
      out_cli = None, out_script = None, no_simulate = False, emit_test_plan = None,
      emit_doc_snippets = None, force = False, dry_run = False\<rparr>"
  let ?p = "\<lparr>name = ''limit'', type = ''int'', required = False, default_val = Some ''abc''\<rparr>"
  note i1 = validation_errors_before_writing [where args = ?a1 and fl = "\<lambda>v. None" and w = ?w]
  note i2 = validation_errors_before_writing [where args = ?a2 and fl = "\<lambda>v. None" and w = ?w
      and params = "[?p]"]
  have "token_error ''x:date''" by code_simp
  then have "(\<exists>t\<in>set (param ?a1). token_error t) \<or> \<not> distinct (map token_name (param ?a1))"
    by simp
  with i1 have "\<exists>e. parse_params (param ?a1) = Inl e" by blast
  with i1 have "\<exists>m. main (\<lambda>v. None) ?a1 ?w = (2, eprint m ?w)" by blast
  then have r1: "fst (main (\<lambda>v. None) ?a1 ?w) = 2" by auto
  have pp: "parse_params [''limit:int:abc''] = Inr [?p]" by code_simp
  have bad: "invalid_default (\<lambda>v. None) ?p"
    by (simp add: invalid_default_def python_cast_value_def) code_simp
  have "valid_identifier (snake (name_arg ?a2)) \<and> parse_params (param ?a2) = Inr [?p] \<and>
    (\<exists>p\<in>set [?p]. invalid_default (\<lambda>v. None) p)"
    using pp bad by (simp add: snake_orders valid_orders)
  with i2 have "\<exists>m. main (\<lambda>v. None) ?a2 ?w = (1, eprint (''Failed: '' @ m) ?w)" by blast
  then have r2: "fst (main (\<lambda>v. None) ?a2 ?w) = 1" "dirs (snd (main (\<lambda>v. None) ?a2 ?w)) = {}"
    by (auto simp: eprint_def)
  show ?thesis using r1 r2 by simp
qed

section \<open>Properties of the surface renderers\<close>

subsection \<open>White space and line breaks\<close>



















subsection \<open>The option decorators, read back\<close>












subsection \<open>Parity of the two surfaces\<close>











section \<open>Properties of the rendered artifacts\<close>

lemmas char_defs = is_space_def is_digit_def is_upper_def is_lower_def is_word_def lower_def
  lower_char_def upper_char_def is_blank_def is_linebreak_def nl_def

lemmas text_defs = strip_def strip_chars_def repr_def repr_char_def hex2_def dedent_def dedent_lines_def
  strip_margin_def blank_to_empty_def margin_of_def split_on_def indent_def replace_char_def
  capitalize_def snake_def Let_def

lemma cli_orders_content:
  "generate_cli_content (\<lambda>v. None) ''orders'' ''yourcmd'' ''https://example.com/api'' ''/example''
     [] None =
   Inr (cli_content_head ''yourcmd/1.0'' ''https://example.com/api'' ''yourcmd'' ''orders''
          cli_json_option
        @ cli_content_docstring ''orders_cmd'' ''output_json: bool'' ''orders subcommand''
        @ cli_content_tail ''/example'' []
            (''click.echo(f'' @ DQ @ ''Command: orders'' @ DQ @ '')'' @ [nl] @ ''            ''
             @ ''click.echo(f'' @ DQ @ ''Endpoint: /example'' @ DQ @ '')'' @ [nl] @ ''            ''
             @ ''click.echo(f'' @ DQ @ ''No parameters'' @ DQ @ '')''))"
  by (simp add: generate_cli_content_def Let_def snake_orders cli_desc_line_def replace_char_def)

lemma script_orders_content:
  "generate_script_content (\<lambda>v. None) ''orders'' ''yourcmd'' ''https://example.com/api'' ''/example''
     [] None True =
   Inr (script_content_head @ script_content_docstring ''orders script''
        @ script_content_tail ''https://example.com/api'' ''yourcmd-script/1.0'' ''fetch_orders'' []
            ''/example'' [] ''orders'' (script_json_option @ [nl] @ script_simulate_option)
            ''output_json, simulate'' ''orders script''
            (simulate_stub_text True ''/example'' [] ''fetch_orders'' []))"
  by (simp add: generate_script_content_def Let_def snake_orders script_desc_line_def)

lemma cli_orders_rendered:
  "\<not> isl (generate_cli_content (\<lambda>v. None) ''orders'' ''yourcmd''
      ''https://example.com/api'' ''/example'' [] None)"
  by (simp add: cli_orders_content)

lemma script_orders_rendered:
  "\<not> isl (generate_script_content (\<lambda>v. None) ''orders'' ''yourcmd''
      ''https://example.com/api'' ''/example'' [] None True)"
  by (simp add: script_orders_content)

lemma cli_orders_no_usage:
  "\<not> has_usage_line (projr (generate_cli_content (\<lambda>v. None) ''orders'' ''yourcmd''
      ''https://example.com/api'' ''/example'' [] None))"
  unfolding cli_orders_content
  by (simp add: has_usage_line_def cli_content_head_def cli_content_docstring_def
      cli_content_tail_def cli_json_option_def char_defs text_defs)

lemma cli_orders_top:
  "starts_with (projr (generate_cli_content (\<lambda>v. None) ''orders'' ''yourcmd''
      ''https://example.com/api'' ''/example'' [] None))
     (''#!/usr/bin/env python3'' @ [nl] @ ''import json'' @ [nl])"
  unfolding cli_orders_content
  by (simp add: cli_content_head_def nl_def)

lemma script_orders_no_usage:
  "\<not> has_usage_line (projr (generate_script_content (\<lambda>v. None) ''orders'' ''yourcmd''
      ''https://example.com/api'' ''/example'' [] None True))"
  unfolding script_orders_content
  by (simp add: has_usage_line_def script_content_head_def
      script_content_docstring_def script_content_tail_def script_json_option_def
      script_simulate_option_def simulate_stub_text_def char_defs text_defs)

text \<open>
  C4, as stated, fails: for the request \<open>orders\<close> with the default options and no
  parameter both renderers succeed, neither artifact has a line with \<open>Usage:\<close>, and the
  subcommand artifact starts with the shebang line and the imports, not with a
  description.
\<close>

theorem surfaces_without_usage_counterexample:
  "\<not> isl (generate_cli_content (\<lambda>v. None) ''orders'' ''yourcmd''
      ''https://example.com/api'' ''/example'' [] None) \<and>
   \<not> has_usage_line (projr (generate_cli_content (\<lambda>v. None) ''orders'' ''yourcmd''
      ''https://example.com/api'' ''/example'' [] None)) \<and>
   starts_with (projr (generate_cli_content (\<lambda>v. None) ''orders'' ''yourcmd''
      ''https://example.com/api'' ''/example'' [] None))
     (''#!/usr/bin/env python3'' @ [nl] @ ''import json'' @ [nl]) \<and>
   \<not> isl (generate_script_content (\<lambda>v. None) ''orders'' ''yourcmd''
      ''https://example.com/api'' ''/example'' [] None True) \<and>
   \<not> has_usage_line (projr (generate_script_content (\<lambda>v. None) ''orders'' ''yourcmd''
      ''https://example.com/api'' ''/example'' [] None True))"
  using cli_orders_rendered cli_orders_no_usage cli_orders_top script_orders_rendered
    script_orders_no_usage
  by (intro conjI)

lemma cli_docstring_start:
  "\<exists>rest. cli_content_docstring fn sg d =
      ''def '' @ fn @ ''('' @ sg @ '') -> None:'' @ [nl] @ ''    ''
      @ [CHR 0x22, CHR 0x22, CHR 0x22] @ d @ ''.'' @ [nl] @ ''    Conventions:'' @ [nl] @ rest"
  by (simp add: cli_content_docstring_def nl_def)

lemma script_docstring_start:
  "\<exists>rest. script_content_docstring d =
      [CHR 0x22, CHR 0x22, CHR 0x22] @ d @ ''.'' @ [nl]
      @ ''Self-contained script with minimal HTTP client.'' @ [nl] @ rest"
  by (simp add: script_content_docstring_def nl_def)

lemma script_content_head_text:
  "script_content_head =
         ''#!/usr/bin/env python3\<newline>'' @
         ''# /// script\<newline>'' @
         ''# dependencies = [\<newline>'' @
         ''#     '' @ DQ @ ''httpx'' @ DQ @ '',\<newline>'' @
         ''#     '' @ DQ @ ''click'' @ DQ @ '',\<newline>'' @
         ''# ]\<newline>'' @
         ''# ///\<newline>'' @
         ''\<newline>''"
  by (simp add: script_content_head_def)

text \<open>
  C4, amended. Every rendered script artifact starts with the shebang line and the inline
  dependency comment, followed by a module docstring whose first line is the description
  line and a full stop. Every rendered subcommand artifact has the description line and a
  full stop as the first line of the docstring of its command function, right after the
  \<open>def\<close> line. The description line is the stripped description or, without one, the
  capability name followed by \<open>script\<close> or \<open>subcommand\<close>. No \<open>Usage:\<close> line is promised.
\<close>

theorem surfaces_carry_description:
  "(generate_script_content fl nm bin url ep params descr sim = Inr c \<longrightarrow>
      (\<exists>rest. c =
         ''#!/usr/bin/env python3\<newline>'' @
         ''# /// script\<newline>'' @
         ''# dependencies = [\<newline>'' @
         ''#     '' @ DQ @ ''httpx'' @ DQ @ '',\<newline>'' @
         ''#     '' @ DQ @ ''click'' @ DQ @ '',\<newline>'' @
         ''# ]\<newline>'' @
         ''# ///\<newline>'' @
         ''\<newline>''
         @ [CHR 0x22, CHR 0x22, CHR 0x22] @ script_desc_line nm descr @ ''.'' @ [nl]
         @ ''Self-contained script with minimal HTTP client.'' @ [nl] @ rest)) \<and>
   (generate_cli_content fl nm bin url ep params descr = Inr c' \<longrightarrow>
      (\<exists>pre sg post. c' =
         pre @ ''def '' @ snake nm @ ''_cmd('' @ sg @ '') -> None:'' @ [nl] @ ''    ''
         @ [CHR 0x22, CHR 0x22, CHR 0x22] @ cli_desc_line nm descr @ ''.'' @ [nl]
         @ ''    Conventions:'' @ [nl] @ post)) \<and>
   script_desc_line nm descr =
      (case descr of None \<Rightarrow> nm @ '' script''
       | Some d \<Rightarrow> if d = [] then nm @ '' script'' else strip d) \<and>
   cli_desc_line nm descr =
      (case descr of None \<Rightarrow> nm @ '' subcommand''
       | Some d \<Rightarrow> if d = [] then nm @ '' subcommand'' else strip d)"
proof (intro conjI impI)
  assume "generate_script_content fl nm bin url ep params descr sim = Inr c"
  then obtain tl where c: "c = script_content_head
      @ script_content_docstring (script_desc_line nm descr) @ tl"
    by (auto simp: generate_script_content_def Let_def split: sum.splits)
  obtain r where r: "script_content_docstring (script_desc_line nm descr) =
      [CHR 0x22, CHR 0x22, CHR 0x22] @ script_desc_line nm descr @ ''.'' @ [nl]
      @ ''Self-contained script with minimal HTTP client.'' @ [nl] @ r"
    using script_docstring_start by blast
  show "\<exists>rest. c =
         ''#!/usr/bin/env python3\<newline>'' @
         ''# /// script\<newline>'' @
         ''# dependencies = [\<newline>'' @
         ''#     '' @ DQ @ ''httpx'' @ DQ @ '',\<newline>'' @
         ''#     '' @ DQ @ ''click'' @ DQ @ '',\<newline>'' @
         ''# ]\<newline>'' @
         ''# ///\<newline>'' @
         ''\<newline>''
         @ [CHR 0x22, CHR 0x22, CHR 0x22] @ script_desc_line nm descr @ ''.'' @ [nl]
         @ ''Self-contained script with minimal HTTP client.'' @ [nl] @ rest"
    unfolding c r script_content_head_text by simp
next
  assume "generate_cli_content fl nm bin url ep params descr = Inr c'"
  then obtain hd sg tl where c: "c' = hd
      @ cli_content_docstring (snake nm @ ''_cmd'') sg (cli_desc_line nm descr) @ tl"
    by (auto simp: generate_cli_content_def Let_def split: sum.splits)
  obtain r where r: "cli_content_docstring (snake nm @ ''_cmd'') sg (cli_desc_line nm descr) =
      ''def '' @ (snake nm @ ''_cmd'') @ ''('' @ sg @ '') -> None:'' @ [nl] @ ''    ''
      @ [CHR 0x22, CHR 0x22, CHR 0x22] @ cli_desc_line nm descr @ ''.'' @ [nl]
      @ ''    Conventions:'' @ [nl] @ r"
    using cli_docstring_start by blast
  have "c' = hd @ ''def '' @ snake nm @ ''_cmd('' @ sg @ '') -> None:'' @ [nl] @ ''    ''
         @ [CHR 0x22, CHR 0x22, CHR 0x22] @ cli_desc_line nm descr @ ''.'' @ [nl]
         @ ''    Conventions:'' @ [nl] @ (r @ tl)"
    unfolding c r by simp
  then show "\<exists>pre sg post. c' =
         pre @ ''def '' @ snake nm @ ''_cmd('' @ sg @ '') -> None:'' @ [nl] @ ''    ''
         @ [CHR 0x22, CHR 0x22, CHR 0x22] @ cli_desc_line nm descr @ ''.'' @ [nl]
         @ ''    Conventions:'' @ [nl] @ post"
    by blast
next
  show "script_desc_line nm descr =
      (case descr of None \<Rightarrow> nm @ '' script''
       | Some d \<Rightarrow> if d = [] then nm @ '' script'' else strip d)"
    by (simp add: script_desc_line_def)
next
  show "cli_desc_line nm descr =
      (case descr of None \<Rightarrow> nm @ '' subcommand''
       | Some d \<Rightarrow> if d = [] then nm @ '' subcommand'' else strip d)"
    by (simp add: cli_desc_line_def)
qed

theorem surfaces_carry_description_witness:
  "(\<exists>rest. projr (generate_script_content (\<lambda>v. None) ''orders'' ''yourcmd''
        ''https://example.com/api'' ''/example'' [] None True) =
         ''#!/usr/bin/env python3\<newline>'' @
         ''# /// script\<newline>'' @
         ''# dependencies = [\<newline>'' @
         ''#     '' @ DQ @ ''httpx'' @ DQ @ '',\<newline>'' @
         ''#     '' @ DQ @ ''click'' @ DQ @ '',\<newline>'' @
         ''# ]\<newline>'' @
         ''# ///\<newline>'' @
         ''\<newline>''
         @ [CHR 0x22, CHR 0x22, CHR 0x22] @ ''orders script.'' @ [nl]
         @ ''Self-contained script with minimal HTTP client.'' @ [nl] @ rest) \<and>
   (\<exists>pre sg post. projr (generate_cli_content (\<lambda>v. None) ''orders'' ''yourcmd''
        ''https://example.com/api'' ''/example'' [] None) =
         pre @ ''def orders_cmd('' @ sg @ '') -> None:'' @ [nl] @ ''    ''
         @ [CHR 0x22, CHR 0x22, CHR 0x22] @ ''orders subcommand.'' @ [nl]
         @ ''    Conventions:'' @ [nl] @ post)"
proof -
  let ?s = "generate_script_content (\<lambda>v. None) ''orders'' ''yourcmd''
        ''https://example.com/api'' ''/example'' [] None True"
  let ?c = "generate_cli_content (\<lambda>v. None) ''orders'' ''yourcmd''
        ''https://example.com/api'' ''/example'' [] None"
  have s: "?s = Inr (projr ?s)" using script_orders_rendered by (cases ?s) simp_all
  have c: "?c = Inr (projr ?c)" using cli_orders_rendered by (cases ?c) simp_all
  note inst = surfaces_carry_description [where fl = "\<lambda>v. None" and nm = "''orders''"
      and bin = "''yourcmd''" and url = "''https://example.com/api''" and ep = "''/example''"
      and params = "[]" and descr = None and sim = True and c = "projr ?s" and c' = "projr ?c"]
  have d: "script_desc_line ''orders'' None = ''orders script''"
    "cli_desc_line ''orders'' None = ''orders subcommand''"
    by (simp_all add: script_desc_line_def cli_desc_line_def)
  from inst s have "\<exists>rest. projr ?s =
         ''#!/usr/bin/env python3\<newline>'' @
         ''# /// script\<newline>'' @
         ''# dependencies = [\<newline>'' @
         ''#     '' @ DQ @ ''httpx'' @ DQ @ '',\<newline>'' @
         ''#     '' @ DQ @ ''click'' @ DQ @ '',\<newline>'' @
         ''# ]\<newline>'' @
         ''# ///\<newline>'' @
         ''\<newline>''
         @ [CHR 0x22, CHR 0x22, CHR 0x22] @ script_desc_line ''orders'' None @ ''.'' @ [nl]
         @ ''Self-contained script with minimal HTTP client.'' @ [nl] @ rest"
    by blast
  then have a: "\<exists>rest. projr ?s =
         ''#!/usr/bin/env python3\<newline>'' @
         ''# /// script\<newline>'' @
         ''# dependencies = [\<newline>'' @
         ''#     '' @ DQ @ ''httpx'' @ DQ @ '',\<newline>'' @
         ''#     '' @ DQ @ ''click'' @ DQ @ '',\<newline>'' @
         ''# ]\<newline>'' @
         ''# ///\<newline>'' @
         ''\<newline>''
         @ [CHR 0x22, CHR 0x22, CHR 0x22] @ ''orders script.'' @ [nl]
         @ ''Self-contained script with minimal HTTP client.'' @ [nl] @ rest"
    by (simp add: d)
  from inst c have "\<exists>pre sg post. projr ?c =
         pre @ ''def '' @ snake ''orders'' @ ''_cmd('' @ sg @ '') -> None:'' @ [nl] @ ''    ''
         @ [CHR 0x22, CHR 0x22, CHR 0x22] @ cli_desc_line ''orders'' None @ ''.'' @ [nl]
         @ ''    Conventions:'' @ [nl] @ post"
    by blast
  then have b: "\<exists>pre sg post. projr ?c =
         pre @ ''def orders_cmd('' @ sg @ '') -> None:'' @ [nl] @ ''    ''
         @ [CHR 0x22, CHR 0x22, CHR 0x22] @ ''orders subcommand.'' @ [nl]
         @ ''    Conventions:'' @ [nl] @ post"
    by (simp add: d snake_orders)
  show ?thesis using a b by (rule conjI)
qed

end
